theory Spec2Isabelle
  imports Complex_Main "HOL-Library.Multiset"
begin

section \<open>Conventions of the embedding\<close>

text \<open>
  The repository holds two variants of the card viewer: \<^verbatim>\<open>app.js\<close>, the monolithic
  application, and a modular variant (classes \<^verbatim>\<open>AnimationController\<close>, \<^verbatim>\<open>CardStack\<close>,
  \<^verbatim>\<open>TextureManager\<close>, \<^verbatim>\<open>WebGPURenderer\<close>). Class \<^verbatim>\<open>StateManager\<close> and the functions of
  \<^verbatim>\<open>Utils\<close> used here are the same text in both. Where the two variants differ, the
  definitions of the modular variant carry its class name or the suffix \<open>_modular\<close>.

  JavaScript numbers that hold coordinates, angles and brightness are modelled as
  \<^typ>\<open>real\<close> (no rounding); counters, cursors and indices as \<^typ>\<open>int\<close> and \<^typ>\<open>nat\<close>.
  A value that may be \<^verbatim>\<open>null\<close> or \<^verbatim>\<open>undefined\<close> is an \<open>option\<close>.
\<close>

section \<open>Configuration\<close>

record config =
  maxStackCards :: int
  stackRotationRange :: real
  stackOffsetRange :: real
  stackDarkenPerLayer :: real
  throwDuration :: real
  settleDuration :: real
  throwDistanceMin :: real
  throwDistanceMax :: real
  throwRotationRange :: real
  depthCurrent :: real
  depthStackBase :: real
  cookieName :: string
  cookieExpireDays :: nat

text \<open>In \<^verbatim>\<open>app.js\<close>, \<^verbatim>\<open>preloadCount\<close> and \<^verbatim>\<open>depthStackIncrement\<close> are getters.\<close>

definition preloadCount :: "'a config_scheme \<Rightarrow> int" where
  "preloadCount cfg = maxStackCards cfg"

definition depthStackIncrement :: "'a config_scheme \<Rightarrow> real" where
  "depthStackIncrement cfg = (1.0 - depthStackBase cfg) / real_of_int (maxStackCards cfg)"

definition CONFIG :: config where
  "CONFIG = \<lparr> maxStackCards = 5, stackRotationRange = 10, stackOffsetRange = 60,
     stackDarkenPerLayer = 0.25, throwDuration = 400, settleDuration = 200,
     throwDistanceMin = 2.5, throwDistanceMax = 3.0, throwRotationRange = 720,
     depthCurrent = 0.1, depthStackBase = 0.5,
     cookieName = ''cardStudyProgress'', cookieExpireDays = 365 \<rparr>"

text \<open>In the modular variant both are plain fields of the configuration object.\<close>

record config_modular = config +
  depthStackIncrement_field :: real
  preloadCount_field :: int

definition CONFIG_modular :: config_modular where
  "CONFIG_modular = \<lparr> maxStackCards = 5, stackRotationRange = 10, stackOffsetRange = 60,
     stackDarkenPerLayer = 0.15, throwDuration = 500, settleDuration = 300,
     throwDistanceMin = 2.5, throwDistanceMax = 3.0, throwRotationRange = 720,
     depthCurrent = 0.1, depthStackBase = 0.5,
     cookieName = ''cardStudyProgress'', cookieExpireDays = 365,
     depthStackIncrement_field = 0.05, preloadCount_field = 5 \<rparr>"

section \<open>The random source\<close>

text \<open>
  \<^verbatim>\<open>Math.random()\<close> returns a number in \<open>[0, 1)\<close>. A draw is a value of that interval
  by its type; the generator is the stream of the draws still to come.
\<close>

typedef random_value = "{r :: real. 0 \<le> r \<and> r < 1}"
  morphisms random_real Abs_random_value
  by (rule exI [of _ 0]) simp

setup_lifting type_definition_random_value

lift_definition random_zero :: random_value is "0 :: real"
  by simp

lift_definition random_half :: random_value is "1 / 2 :: real"
  by simp

type_synonym rng = "nat \<Rightarrow> random_value"

definition Math_random :: "rng \<Rightarrow> real \<times> rng" where
  "Math_random g = (random_real (g 0), \<lambda>n. g (Suc n))"

section \<open>JavaScript arrays\<close>

text \<open>
  \<^verbatim>\<open>a[i]\<close> on an array is \<^verbatim>\<open>undefined\<close> when \<open>i\<close> is not an index of \<open>a\<close>
  (negative, or at least \<^verbatim>\<open>a.length\<close>).
\<close>

definition js_index :: "'a list \<Rightarrow> int \<Rightarrow> 'a option" where
  "js_index xs i = (if 0 \<le> i \<and> i < int (length xs) then Some (xs ! nat i) else None)"

section \<open>Utils\<close>

definition easeOutCubic :: "real \<Rightarrow> real" where
  "easeOutCubic t = 1 - (1 - t) ^ 3"

section \<open>StateManager: the state and its queries\<close>

record StateManager =
  totalCards :: nat
  shuffledIndices :: "int list"
  currentCardIndex :: int

definition StateManager_new :: "nat \<Rightarrow> StateManager" where
  "StateManager_new n = \<lparr> totalCards = n, shuffledIndices = [], currentCardIndex = 0 \<rparr>"

text \<open>
  \<^verbatim>\<open>cards[this.shuffledIndices[this.currentCardIndex]]\<close>: an index out of range gives
  \<^verbatim>\<open>undefined\<close>, and \<^verbatim>\<open>cards[undefined]\<close> is \<^verbatim>\<open>undefined\<close> again.
\<close>

definition getCurrentCardPath :: "StateManager \<Rightarrow> string list \<Rightarrow> string option" where
  "getCurrentCardPath sm cards =
     (case js_index (shuffledIndices sm) (currentCardIndex sm) of
        None \<Rightarrow> None
      | Some k \<Rightarrow> js_index cards k)"

text \<open>The result \<open>None\<close> stands for \<^verbatim>\<open>null\<close> (past the deck's end) and \<^verbatim>\<open>undefined\<close> alike.\<close>

definition getStackCardPath :: "StateManager \<Rightarrow> string list \<Rightarrow> int \<Rightarrow> string option" where
  "getStackCardPath sm cards offset =
     (let idx = currentCardIndex sm + offset in
      if idx < int (length (shuffledIndices sm)) then
        (case js_index (shuffledIndices sm) idx of
           None \<Rightarrow> None
         | Some k \<Rightarrow> js_index cards k)
      else None)"

definition getRemainingCards :: "StateManager \<Rightarrow> int" where
  "getRemainingCards sm = int (length (shuffledIndices sm)) - currentCardIndex sm"

section \<open>The browser: cookies, the clock and the random source\<close>

text \<open>
  \<^verbatim>\<open>document.cookie\<close> is modelled as a jar of name and value pairs in the order the
  cookies were created. Reading it gives \<^verbatim>\<open>"n1=v1; n2=v2"\<close>. Assigning a string to it
  takes the text before the first \<^verbatim>\<open>;\<close> as the pair, cuts it at its first \<^verbatim>\<open>=\<close>, strips
  blanks around both halves, and stores the value under the name: in place when the name
  is in the jar, at the end otherwise. The attributes after the first \<^verbatim>\<open>;\<close> are not
  interpreted: the only writer is \<^verbatim>\<open>setCookie\<close>, whose expiry lies 365 days ahead and
  whose path is \<^verbatim>\<open>/\<close>. The jar has no size limit, one path and one domain.
\<close>

type_synonym cookie_jar = "(string \<times> string) list"

fun join :: "string \<Rightarrow> string list \<Rightarrow> string" where
  "join sep [] = []"
| "join sep [x] = x"
| "join sep (x # y # ys) = x @ sep @ join sep (y # ys)"

definition document_cookie_get :: "cookie_jar \<Rightarrow> string" where
  "document_cookie_get jar = join ''; '' (map (\<lambda>(n, v). n @ ''='' @ v) jar)"

definition is_blank :: "char \<Rightarrow> bool" where
  "is_blank c \<longleftrightarrow> c = CHR '' '' \<or> c = CHR 0x09"

definition trim :: "string \<Rightarrow> string" where
  "trim s = rev (dropWhile is_blank (rev (dropWhile is_blank s)))"

fun store_cookie :: "string \<Rightarrow> string \<Rightarrow> cookie_jar \<Rightarrow> cookie_jar" where
  "store_cookie n v [] = [(n, v)]"
| "store_cookie n v ((n', v') # jar) =
     (if n' = n then (n, v) # jar else (n', v') # store_cookie n v jar)"

definition document_cookie_set :: "string \<Rightarrow> cookie_jar \<Rightarrow> cookie_jar" where
  "document_cookie_set str jar =
     (let pair = takeWhile (\<lambda>c. c \<noteq> CHR '';'') str in
      if CHR ''='' \<in> set pair
      then store_cookie (trim (takeWhile (\<lambda>c. c \<noteq> CHR ''='') pair))
                        (trim (drop 1 (dropWhile (\<lambda>c. c \<noteq> CHR ''='') pair))) jar
      else store_cookie [] (trim pair) jar)"

text \<open>
  \<open>expiry_text b days\<close> is the text of \<^verbatim>\<open>expires.toUTCString()\<close> for a date \<open>days\<close>
  ahead of the clock; \<open>random\<close> holds the draws \<^verbatim>\<open>Math.random()\<close> will return.
\<close>

record browser =
  cookies :: cookie_jar
  random :: rng
  expiry_text :: "nat \<Rightarrow> string"

section \<open>Utils: cookies and the shuffle\<close>

definition setCookie :: "string \<Rightarrow> string \<Rightarrow> nat \<Rightarrow> browser \<Rightarrow> browser" where
  "setCookie name v days b =
     b \<lparr> cookies := document_cookie_set
            (name @ ''='' @ v @ '';expires='' @ expiry_text b days @ '';path=/'') (cookies b) \<rparr>"

text \<open>\<^verbatim>\<open>s.split(c)\<close> for a separator of one character: the empty string gives one empty piece.\<close>

fun split_on :: "char \<Rightarrow> string \<Rightarrow> string list" where
  "split_on c [] = [[]]"
| "split_on c (x # xs) =
     (if x = c then [] # split_on c xs
      else (case split_on c xs of [] \<Rightarrow> [[x]] | p # ps \<Rightarrow> (x # p) # ps))"

text \<open>
  The loop of \<^verbatim>\<open>getCookie\<close> over the pieces: leading spaces are dropped, and the first
  piece that starts with \<^verbatim>\<open>name=\<close> gives its remainder. \<open>None\<close> is \<^verbatim>\<open>null\<close>.
\<close>

fun getCookie_loop :: "string \<Rightarrow> string list \<Rightarrow> string option" where
  "getCookie_loop nameEQ [] = None"
| "getCookie_loop nameEQ (c # ca) =
     (let c' = dropWhile (\<lambda>ch. ch = CHR '' '') c in
      if take (length nameEQ) c' = nameEQ then Some (drop (length nameEQ) c')
      else getCookie_loop nameEQ ca)"

definition getCookie :: "string \<Rightarrow> browser \<Rightarrow> string option" where
  "getCookie name b =
     (let nameEQ = name @ ''='';
          ca = split_on (CHR '';'') (document_cookie_get (cookies b))
      in getCookie_loop nameEQ ca)"

text \<open>
  The loop of \<^verbatim>\<open>fisherYatesShuffle\<close>, \<open>i\<close> from \<^verbatim>\<open>array.length - 1\<close> down to 1. With a draw
  \<open>r\<close> in \<open>[0, 1)\<close> the index \<open>j = \<lfloor>r * (i + 1)\<rfloor>\<close> is at most \<open>i\<close>, so both writes of the swap
  stay inside the array.
\<close>

fun fisherYates_loop :: "nat \<Rightarrow> 'a list \<Rightarrow> rng \<Rightarrow> 'a list \<times> rng" where
  "fisherYates_loop 0 array g = (array, g)"
| "fisherYates_loop (Suc k) array g =
     (let i = Suc k;
          (r, g') = Math_random g;
          j = nat \<lfloor>r * real (i + 1)\<rfloor>
      in fisherYates_loop k (array [i := array ! j, j := array ! i]) g')"

definition fisherYatesShuffle :: "'a list \<Rightarrow> rng \<Rightarrow> 'a list \<times> rng" where
  "fisherYatesShuffle array g = fisherYates_loop (length array - 1) array g"

section \<open>JSON\<close>

text \<open>
  The values \<^verbatim>\<open>JSON.parse\<close> returns. A number is an integer of the range in which
  JavaScript numbers are exact, \<open>[-2\<^sup>5\<^sup>3, 2\<^sup>5\<^sup>3]\<close>; strings are over 8-bit characters.
\<close>

datatype json =
  JNull
| JBool bool
| JNum int
| JStr string
| JArr "json list"
| JObj "(string \<times> json) list"

subsection \<open>\<^verbatim>\<open>JSON.stringify\<close>\<close>

definition digit_char :: "nat \<Rightarrow> char" where
  "digit_char d = char_of (48 + d)"

fun string_of_nat :: "nat \<Rightarrow> string" where
  "string_of_nat n =
     (if n < 10 then [digit_char n] else string_of_nat (n div 10) @ [digit_char (n mod 10)])"

declare string_of_nat.simps [simp del]

definition string_of_int :: "int \<Rightarrow> string" where
  "string_of_int i = (if i < 0 then CHR ''-'' # string_of_nat (nat (- i)) else string_of_nat (nat i))"

definition hex_char :: "nat \<Rightarrow> char" where
  "hex_char d = (if d < 10 then char_of (48 + d) else char_of (87 + d))"

definition JSON_escape :: "char \<Rightarrow> string" where
  "JSON_escape c =
     (if c = CHR 0x22 then [CHR 0x5C, CHR 0x22]
      else if c = CHR 0x5C then [CHR 0x5C, CHR 0x5C]
      else if c = CHR 0x08 then [CHR 0x5C, CHR ''b'']
      else if c = CHR 0x0C then [CHR 0x5C, CHR ''f'']
      else if c = CHR 0x0A then [CHR 0x5C, CHR ''n'']
      else if c = CHR 0x0D then [CHR 0x5C, CHR ''r'']
      else if c = CHR 0x09 then [CHR 0x5C, CHR ''t'']
      else if (of_char c :: nat) < 32
        then [CHR 0x5C, CHR ''u'', CHR ''0'', CHR ''0'',
              hex_char (of_char c div 16), hex_char (of_char c mod 16)]
      else [c])"

definition JSON_quote :: "string \<Rightarrow> string" where
  "JSON_quote s = CHR 0x22 # concat (map JSON_escape s) @ [CHR 0x22]"

fun JSON_stringify :: "json \<Rightarrow> string" where
  "JSON_stringify JNull = ''null''"
| "JSON_stringify (JBool b) = (if b then ''true'' else ''false'')"
| "JSON_stringify (JNum n) = string_of_int n"
| "JSON_stringify (JStr s) = JSON_quote s"
| "JSON_stringify (JArr vs) = ''['' @ join '','' (map JSON_stringify vs) @ '']''"
| "JSON_stringify (JObj kvs) =
     ''{'' @ join '','' (map (\<lambda>kv. JSON_quote (fst kv) @ '':'' @ JSON_stringify (snd kv)) kvs) @ ''}''"

subsection \<open>\<^verbatim>\<open>JSON.parse\<close>\<close>

text \<open>
  A recursive-descent reader of the JSON grammar. \<open>SyntaxError\<close> is the exception of
  \<^verbatim>\<open>JSON.parse\<close>. \<open>Unsupported\<close> marks a text on which this model is silent: it is
  returned at the first escape sequence in a string, at a numeral with a fraction or an
  exponent or beyond \<open>2\<^sup>5\<^sup>3\<close>, and when the fuel runs out.
\<close>

datatype 'a parse_result = Value 'a | SyntaxError | Unsupported

definition is_ws :: "char \<Rightarrow> bool" where
  "is_ws c \<longleftrightarrow> c = CHR '' '' \<or> c = CHR 0x09 \<or> c = CHR 0x0A \<or> c = CHR 0x0D"

definition skip_ws :: "string \<Rightarrow> string" where
  "skip_ws cs = dropWhile is_ws cs"

definition is_digit :: "char \<Rightarrow> bool" where
  "is_digit c \<longleftrightarrow> 48 \<le> (of_char c :: nat) \<and> (of_char c :: nat) \<le> 57"

definition nat_of_digits :: "string \<Rightarrow> nat" where
  "nat_of_digits ds = foldl (\<lambda>n c. 10 * n + (of_char c - 48)) 0 ds"

definition parse_number :: "string \<Rightarrow> (json \<times> string) parse_result" where
  "parse_number cs =
     (let neg = (case cs of [] \<Rightarrow> False | c # _ \<Rightarrow> c = CHR ''-'');
          cs1 = (if neg then drop 1 cs else cs);
          ds = takeWhile is_digit cs1;
          rest = dropWhile is_digit cs1
      in if ds = [] then SyntaxError
         else if hd ds = CHR ''0'' \<and> length ds > 1 then SyntaxError
         else if (case rest of [] \<Rightarrow> False
                  | c # _ \<Rightarrow> c = CHR ''.'' \<or> c = CHR ''e'' \<or> c = CHR ''E'') then Unsupported
         else if nat_of_digits ds > 2 ^ 53 then Unsupported
         else Value (JNum (if neg then - int (nat_of_digits ds) else int (nat_of_digits ds)), rest))"

text \<open>The characters of a string after its opening quote, up to the closing one.\<close>

fun parse_string_body :: "string \<Rightarrow> (string \<times> string) parse_result" where
  "parse_string_body [] = SyntaxError"
| "parse_string_body (c # cs) =
     (if c = CHR 0x22 then Value ([], cs)
      else if c = CHR 0x5C then Unsupported
      else if (of_char c :: nat) < 32 then SyntaxError
      else (case parse_string_body cs of
              Value (s, rest) \<Rightarrow> Value (c # s, rest)
            | SyntaxError \<Rightarrow> SyntaxError
            | Unsupported \<Rightarrow> Unsupported))"

definition parse_literal :: "string \<Rightarrow> json \<Rightarrow> string \<Rightarrow> (json \<times> string) parse_result" where
  "parse_literal word v cs =
     (if take (length word) cs = word then Value (v, drop (length word) cs) else SyntaxError)"

fun parse_value :: "nat \<Rightarrow> string \<Rightarrow> (json \<times> string) parse_result"
  and parse_elements :: "nat \<Rightarrow> string \<Rightarrow> json list \<Rightarrow> (json \<times> string) parse_result"
  and parse_members :: "nat \<Rightarrow> string \<Rightarrow> (string \<times> json) list \<Rightarrow> (json \<times> string) parse_result"
where
  "parse_value 0 cs = Unsupported"
| "parse_value (Suc fuel) cs =
     (case skip_ws cs of
        [] \<Rightarrow> SyntaxError
      | c # r \<Rightarrow>
          if c = CHR ''{'' then
            (case skip_ws r of
               [] \<Rightarrow> SyntaxError
             | c' # r' \<Rightarrow> if c' = CHR ''}'' then Value (JObj [], r')
                          else parse_members fuel (c' # r') [])
          else if c = CHR ''['' then
            (case skip_ws r of
               [] \<Rightarrow> SyntaxError
             | c' # r' \<Rightarrow> if c' = CHR '']'' then Value (JArr [], r')
                          else parse_elements fuel (c' # r') [])
          else if c = CHR 0x22 then
            (case parse_string_body r of
               Value (s, rest) \<Rightarrow> Value (JStr s, rest)
             | SyntaxError \<Rightarrow> SyntaxError
             | Unsupported \<Rightarrow> Unsupported)
          else if c = CHR ''t'' then parse_literal ''true'' (JBool True) (c # r)
          else if c = CHR ''f'' then parse_literal ''false'' (JBool False) (c # r)
          else if c = CHR ''n'' then parse_literal ''null'' JNull (c # r)
          else parse_number (c # r))"
| "parse_elements 0 cs acc = Unsupported"
| "parse_elements (Suc fuel) cs acc =
     (case parse_value fuel cs of
        Value (v, rest) \<Rightarrow>
          (case skip_ws rest of
             [] \<Rightarrow> SyntaxError
           | c # r \<Rightarrow> if c = CHR '','' then parse_elements fuel r (acc @ [v])
                      else if c = CHR '']'' then Value (JArr (acc @ [v]), r)
                      else SyntaxError)
      | SyntaxError \<Rightarrow> SyntaxError
      | Unsupported \<Rightarrow> Unsupported)"
| "parse_members 0 cs acc = Unsupported"
| "parse_members (Suc fuel) cs acc =
     (case skip_ws cs of
        [] \<Rightarrow> SyntaxError
      | q # r \<Rightarrow>
          if q \<noteq> CHR 0x22 then SyntaxError
          else
            (case parse_string_body r of
               Value (k, r1) \<Rightarrow>
                 (case skip_ws r1 of
                    [] \<Rightarrow> SyntaxError
                  | c # r2 \<Rightarrow>
                      if c \<noteq> CHR '':'' then SyntaxError
                      else
                        (case parse_value fuel r2 of
                           Value (v, r3) \<Rightarrow>
                             (case skip_ws r3 of
                                [] \<Rightarrow> SyntaxError
                              | c' # r4 \<Rightarrow>
                                  if c' = CHR '','' then parse_members fuel r4 (acc @ [(k, v)])
                                  else if c' = CHR ''}'' then Value (JObj (acc @ [(k, v)]), r4)
                                  else SyntaxError)
                         | SyntaxError \<Rightarrow> SyntaxError
                         | Unsupported \<Rightarrow> Unsupported))
             | SyntaxError \<Rightarrow> SyntaxError
             | Unsupported \<Rightarrow> Unsupported))"

definition JSON_parse :: "string \<Rightarrow> json parse_result" where
  "JSON_parse s =
     (case parse_value (Suc (length s)) s of
        Value (v, rest) \<Rightarrow> if skip_ws rest = [] then Value v else SyntaxError
      | SyntaxError \<Rightarrow> SyntaxError
      | Unsupported \<Rightarrow> Unsupported)"

subsection \<open>Property access on a parsed value\<close>

text \<open>
  \<open>own_property v k\<close> is \<^verbatim>\<open>v[k]\<close> for the keys \<^verbatim>\<open>indices\<close> and \<^verbatim>\<open>current\<close> on a value that is
  not \<^verbatim>\<open>null\<close>: only an object can hold them, the last of equal keys wins, and \<open>None\<close> is
  \<^verbatim>\<open>undefined\<close>. \<open>length_property v\<close> is \<^verbatim>\<open>v.length\<close> on a value that is not \<^verbatim>\<open>null\<close>.
\<close>

definition own_property :: "json \<Rightarrow> string \<Rightarrow> json option" where
  "own_property v k = (case v of JObj kvs \<Rightarrow> map_of (rev kvs) k | _ \<Rightarrow> None)"

definition length_property :: "json \<Rightarrow> json option" where
  "length_property v =
     (case v of
        JArr vs \<Rightarrow> Some (JNum (int (length vs)))
      | JStr s \<Rightarrow> Some (JNum (int (length s)))
      | JObj kvs \<Rightarrow> map_of (rev kvs) ''length''
      | _ \<Rightarrow> None)"

fun as_int :: "json \<Rightarrow> int option" where
  "as_int (JNum n) = Some n"
| "as_int _ = None"

fun as_int_list :: "json \<Rightarrow> int list option" where
  "as_int_list (JArr vs) = those (map as_int vs)"
| "as_int_list _ = None"

section \<open>StateManager: persistence, shuffle and cursor\<close>

text \<open>The object \<^verbatim>\<open>{ indices: xs, current: c }\<close> that \<^verbatim>\<open>save\<close> builds.\<close>

definition state_json :: "int list \<Rightarrow> int \<Rightarrow> json" where
  "state_json xs c = JObj [(''indices'', JArr (map JNum xs)), (''current'', JNum c)]"

definition save :: "'a config_scheme \<Rightarrow> StateManager \<Rightarrow> browser \<Rightarrow> browser" where
  "save cfg sm b =
     (let state = state_json (shuffledIndices sm) (currentCardIndex sm)
      in setCookie (cookieName cfg) (JSON_stringify state) (cookieExpireDays cfg) b)"

definition reset :: "'a config_scheme \<Rightarrow> StateManager \<Rightarrow> browser \<Rightarrow> StateManager \<times> browser" where
  "reset cfg sm b =
     (let (shuffled, g') = fisherYatesShuffle (map int [0 ..< totalCards sm]) (random b);
          sm' = sm \<lparr> shuffledIndices := shuffled, currentCardIndex := 0 \<rparr>;
          b' = b \<lparr> random := g' \<rparr>
      in (sm', save cfg sm' b'))"

definition advance ::
  "'a config_scheme \<Rightarrow> StateManager \<Rightarrow> browser \<Rightarrow> bool \<times> StateManager \<times> browser" where
  "advance cfg sm b =
     (let sm' = sm \<lparr> currentCardIndex := currentCardIndex sm + 1 \<rparr> in
      if currentCardIndex sm' \<ge> int (length (shuffledIndices sm')) then (False, sm', b)
      else (True, sm', save cfg sm' b))"

text \<open>
  \<^verbatim>\<open>load\<close> assigns \<^verbatim>\<open>state.indices\<close> and \<^verbatim>\<open>state.current\<close> as they are, then compares
  \<^verbatim>\<open>this.shuffledIndices.length\<close> with \<^verbatim>\<open>this.totalCards\<close>; every exception of the block
  (of \<^verbatim>\<open>JSON.parse\<close>, of a property read on \<^verbatim>\<open>null\<close> or \<^verbatim>\<open>undefined\<close>, and the one it throws
  itself) ends in \<^verbatim>\<open>reset()\<close>, which overwrites both fields. A snapshot that passes the
  comparison is adopted whatever it holds: \<open>Loaded\<close> when it is an array of integers with
  an integer cursor, \<open>Adopted_untyped\<close> with the two values otherwise (such a state is
  outside \<^typ>\<open>StateManager\<close>). \<open>Not_modelled\<close> is the result on an \<open>Unsupported\<close> text.
\<close>

datatype load_result =
  Loaded StateManager browser
| Adopted_untyped json "json option"
| Not_modelled

definition load :: "'a config_scheme \<Rightarrow> StateManager \<Rightarrow> browser \<Rightarrow> load_result" where
  "load cfg sm b =
     (let fallback = (case reset cfg sm b of (sm', b') \<Rightarrow> Loaded sm' b') in
      case getCookie (cookieName cfg) b of
        None \<Rightarrow> fallback
      | Some saved \<Rightarrow>
          if saved = [] then fallback
          else
            (case JSON_parse saved of
               SyntaxError \<Rightarrow> fallback
             | Unsupported \<Rightarrow> Not_modelled
             | Value state \<Rightarrow>
                 if state = JNull then fallback
                 else
                   (let indices = own_property state ''indices'';
                        current = own_property state ''current''
                    in case indices of
                         None \<Rightarrow> fallback
                       | Some ind \<Rightarrow>
                           if ind = JNull then fallback
                           else if length_property ind \<noteq> Some (JNum (int (totalCards sm)))
                             then fallback
                           else
                             (case (as_int_list ind, current) of
                                (Some xs, Some (JNum c)) \<Rightarrow>
                                  Loaded (sm \<lparr> shuffledIndices := xs, currentCardIndex := c \<rparr>) b
                              | _ \<Rightarrow> Adopted_untyped ind current))))"

text \<open>\<open>n\<close> successive calls of \<^verbatim>\<open>advance()\<close>, with the value each call returned.\<close>

fun advance_times ::
  "nat \<Rightarrow> 'a config_scheme \<Rightarrow> StateManager \<Rightarrow> browser \<Rightarrow> bool list \<times> StateManager \<times> browser" where
  "advance_times 0 cfg sm b = ([], sm, b)"
| "advance_times (Suc n) cfg sm b =
     (case advance cfg sm b of
        (r, sm', b') \<Rightarrow>
          (case advance_times n cfg sm' b' of (rs, sm'', b'') \<Rightarrow> (r # rs, sm'', b'')))"

section \<open>Draw commands\<close>

datatype texture = Texture string

record vec2 =
  xcoord :: real
  ycoord :: real

text \<open>The arguments of one \<^verbatim>\<open>renderCard\<close> call.\<close>

record draw =
  draw_texture :: texture
  draw_offsetX :: real
  draw_offsetY :: real
  draw_scale :: real
  draw_rotation :: real
  draw_depth :: real
  draw_opacity :: real
  draw_darkenFactor :: real

text \<open>The live viewport: \<^verbatim>\<open>window.innerWidth\<close> and \<^verbatim>\<open>window.innerHeight\<close>.\<close>

record window =
  innerWidth :: real
  innerHeight :: real

text \<open>Visibility near the deck's end, the same statements in both variants.\<close>

definition stackOpacity :: "int \<Rightarrow> int \<Rightarrow> int \<Rightarrow> int \<Rightarrow> real" where
  "stackOpacity maxStack remaining stackSize i =
     (if remaining \<le> maxStack then
        (let cardPosition = stackSize - i in
         if cardPosition \<ge> remaining - 1 then 0.0 else 1.0)
      else 1.0)"

section \<open>The modular variant: AnimationController\<close>

datatype animation_type = Throw | Settle

record AnimationController =
  ac_isAnimating :: bool
  ac_animationType :: "animation_type option"
  ac_progress :: real
  ac_startTime :: real
  ac_throwDirection :: vec2
  ac_throwRotation :: real
  ac_settleFromRotation :: real
  ac_settleFromOffset :: vec2

record transform =
  tr_offsetX :: real
  tr_offsetY :: real
  tr_rotation :: real
  tr_opacity :: real
  tr_darken :: real

definition getThrowTransform :: "AnimationController \<Rightarrow> real \<Rightarrow> real \<Rightarrow> transform" where
  "getThrowTransform ac cssWidth cssHeight =
     (let eased = easeOutCubic (ac_progress ac) in
      \<lparr> tr_offsetX = xcoord (ac_throwDirection ac) * eased,
        tr_offsetY = ycoord (ac_throwDirection ac) * eased,
        tr_rotation = ac_throwRotation ac * eased,
        tr_opacity = 1.0 - ac_progress ac,
        tr_darken = 1.0 \<rparr>)"

definition getSettleTransform ::
  "'a config_scheme \<Rightarrow> AnimationController \<Rightarrow> real \<Rightarrow> real \<Rightarrow> transform" where
  "getSettleTransform cfg ac cssWidth cssHeight =
     (let eased = easeOutCubic (ac_progress ac);
          pixelOffsetX = xcoord (ac_settleFromOffset ac) * (1 - eased);
          pixelOffsetY = ycoord (ac_settleFromOffset ac) * (1 - eased);
          offsetX = (pixelOffsetX / cssWidth) * 2;
          offsetY = (pixelOffsetY / cssHeight) * 2;
          rotation = ac_settleFromRotation ac * (1 - eased);
          initialDarken = 1.0 - stackDarkenPerLayer cfg;
          darken = initialDarken + (1.0 - initialDarken) * eased
      in \<lparr> tr_offsetX = offsetX, tr_offsetY = offsetY, tr_rotation = rotation,
           tr_opacity = 1.0, tr_darken = darken \<rparr>)"

section \<open>The modular variant: CardStack\<close>

text \<open>Four parallel arrays; an entry of \<open>oldDarkenFactors\<close> may be \<^verbatim>\<open>null\<close>.\<close>

record CardStack =
  textures :: "texture list"
  rotations :: "real list"
  offsets :: "vec2 list"
  oldDarkenFactors :: "real option list"

definition CardStack_new :: CardStack where
  "CardStack_new = \<lparr> textures = [], rotations = [], offsets = [], oldDarkenFactors = [] \<rparr>"

definition CardStack_clear :: "CardStack \<Rightarrow> CardStack" where
  "CardStack_clear st = st \<lparr> textures := [], rotations := [], offsets := [], oldDarkenFactors := [] \<rparr>"

definition CardStack_add :: "'a config_scheme \<Rightarrow> texture \<Rightarrow> CardStack \<Rightarrow> rng \<Rightarrow> CardStack \<times> rng" where
  "CardStack_add cfg tex st g =
     (let (r1, g1) = Math_random g;
          rotation = (r1 - 0.5) * stackRotationRange cfg;
          (r2, g2) = Math_random g1;
          offsetX = (r2 - 0.5) * stackOffsetRange cfg;
          (r3, g3) = Math_random g2;
          offsetY = (r3 - 0.5) * stackOffsetRange cfg
      in (st \<lparr> textures := textures st @ [tex],
                rotations := rotations st @ [rotation],
                offsets := offsets st @ [\<lparr> xcoord = offsetX, ycoord = offsetY \<rparr>],
                oldDarkenFactors := oldDarkenFactors st @ [None] \<rparr>, g3))"

definition CardStack_shift :: "CardStack \<Rightarrow> CardStack" where
  "CardStack_shift st =
     st \<lparr> textures := drop 1 (textures st), rotations := drop 1 (rotations st),
          offsets := drop 1 (offsets st), oldDarkenFactors := drop 1 (oldDarkenFactors st) \<rparr>"

definition saveOldDarkenFactors :: "'a config_scheme \<Rightarrow> int \<Rightarrow> CardStack \<Rightarrow> CardStack" where
  "saveOldDarkenFactors cfg remainingCards st =
     (let stackSize = min (maxStackCards cfg) (remainingCards - 1) in
      st \<lparr> oldDarkenFactors :=
             map (\<lambda>i. let oldStackLayer = stackSize - int i in
                       Some (1.0 - (real_of_int oldStackLayer * stackDarkenPerLayer cfg)))
                 [0 ..< length (textures st)] \<rparr>)"

text \<open>
  \<^verbatim>\<open>getCard(index)\<close> reads the four arrays at one index. The methods above keep the arrays
  at equal lengths, and the renderer reads only indices below \<^verbatim>\<open>textures.length\<close>; the
  result is \<open>None\<close> where an array has no entry at the index (the source would go on
  with \<^verbatim>\<open>undefined\<close>, which this model does not follow).
\<close>

record card =
  card_texture :: texture
  card_rotation :: real
  card_offset :: vec2
  card_oldDarkenFactor :: "real option"

definition getCard :: "CardStack \<Rightarrow> nat \<Rightarrow> card option" where
  "getCard st index =
     (if index < length (textures st) \<and> index < length (rotations st)
         \<and> index < length (offsets st) \<and> index < length (oldDarkenFactors st)
      then Some \<lparr> card_texture = textures st ! index, card_rotation = rotations st ! index,
                  card_offset = offsets st ! index,
                  card_oldDarkenFactor = oldDarkenFactors st ! index \<rparr>
      else None)"

definition parallel :: "CardStack \<Rightarrow> bool" where
  "parallel st \<longleftrightarrow> length (rotations st) = length (textures st)
     \<and> length (offsets st) = length (textures st)
     \<and> length (oldDarkenFactors st) = length (textures st)"

section \<open>The modular variant: rendering\<close>

record CardStudyApp_modular =
  m_stateManager :: StateManager
  m_animationController :: AnimationController
  m_cardStack :: CardStack
  m_currentTexture :: "texture option"

text \<open>
  \<open>cssWidth\<close> and \<open>cssHeight\<close> are \<^verbatim>\<open>parseInt(this.canvas.style.width)\<close> and
  \<^verbatim>\<open>parseInt(this.canvas.style.height)\<close>, read at every call.
\<close>

definition renderStackCard ::
  "config_modular \<Rightarrow> real \<Rightarrow> real \<Rightarrow> CardStudyApp_modular \<Rightarrow> nat \<Rightarrow> int \<Rightarrow> int \<Rightarrow> draw option" where
  "renderStackCard cfg cssWidth cssHeight app index stackSize remaining =
     (case getCard (m_cardStack app) index of
        None \<Rightarrow> None
      | Some c \<Rightarrow>
         (let depth = depthStackBase cfg + (real index * depthStackIncrement_field cfg);
              stackLayer = stackSize - int index;
              normalizedOffsetX = (xcoord (card_offset c) / cssWidth) * 2;
              normalizedOffsetY = (ycoord (card_offset c) / cssHeight) * 2;
              ac = m_animationController app;
              darkenFactor =
                (case card_oldDarkenFactor c of
                   Some oldDarken \<Rightarrow>
                     if ac_animationType ac = Some Settle \<and> ac_isAnimating ac
                     then (let newDarken = 1.0 - (real_of_int stackLayer * stackDarkenPerLayer cfg);
                               eased = easeOutCubic (ac_progress ac)
                           in oldDarken + (newDarken - oldDarken) * eased)
                     else 1.0 - (real_of_int stackLayer * stackDarkenPerLayer cfg)
                 | None \<Rightarrow> 1.0 - (real_of_int stackLayer * stackDarkenPerLayer cfg));
              opacity = stackOpacity (maxStackCards cfg) remaining stackSize (int index)
          in Some \<lparr> draw_texture = card_texture c, draw_offsetX = normalizedOffsetX,
                     draw_offsetY = normalizedOffsetY, draw_scale = 1.0,
                     draw_rotation = card_rotation c, draw_depth = depth,
                     draw_opacity = opacity, draw_darkenFactor = darkenFactor \<rparr>))"

definition renderCurrentCard ::
  "config_modular \<Rightarrow> real \<Rightarrow> real \<Rightarrow> CardStudyApp_modular \<Rightarrow> texture \<Rightarrow> draw" where
  "renderCurrentCard cfg cssWidth cssHeight app tex =
     (let ac = m_animationController app;
          idle = \<lparr> tr_offsetX = 0, tr_offsetY = 0, tr_rotation = 0, tr_opacity = 1.0,
                   tr_darken = 1.0 \<rparr>;
          t = (if ac_isAnimating ac then
                 (if ac_animationType ac = Some Throw then getThrowTransform ac cssWidth cssHeight
                  else if ac_animationType ac = Some Settle then
                    getSettleTransform cfg ac cssWidth cssHeight
                  else idle)
               else idle)
      in \<lparr> draw_texture = tex, draw_offsetX = tr_offsetX t, draw_offsetY = tr_offsetY t,
           draw_scale = 1.0, draw_rotation = tr_rotation t, draw_depth = depthCurrent cfg,
           draw_opacity = tr_opacity t, draw_darkenFactor = tr_darken t \<rparr>)"

text \<open>
  One frame: the stack cards from the back (\<open>i = stackSize - 1\<close>) to the front
  (\<open>i = 0\<close>), then the current card.
\<close>

definition renderStackCards_modular ::
  "config_modular \<Rightarrow> real \<Rightarrow> real \<Rightarrow> CardStudyApp_modular \<Rightarrow> draw option list" where
  "renderStackCards_modular cfg cssWidth cssHeight app =
     (let remaining = getRemainingCards (m_stateManager app);
          stackSize = min (maxStackCards cfg) (remaining - 1)
      in concat (map (\<lambda>i. if i < length (textures (m_cardStack app))
                           then [renderStackCard cfg cssWidth cssHeight app i stackSize remaining]
                           else [])
                     (rev [0 ..< nat stackSize])))"

definition render_modular ::
  "config_modular \<Rightarrow> real \<Rightarrow> real \<Rightarrow> CardStudyApp_modular \<Rightarrow> draw option list" where
  "render_modular cfg cssWidth cssHeight app =
     renderStackCards_modular cfg cssWidth cssHeight app
     @ (case m_currentTexture app of
          None \<Rightarrow> []
        | Some tex \<Rightarrow> [Some (renderCurrentCard cfg cssWidth cssHeight app tex)])"

section \<open>The application of \<^verbatim>\<open>app.js\<close>\<close>

record CardStudyApp =
  cards :: "string list"
  stateManager :: StateManager
  isAnimating :: bool
  animationProgress :: real
  throwDirection :: vec2
  throwRotation :: real
  cardRotations :: "real list"
  cardOffsets :: "vec2 list"
  cardDarkenFactors :: "real option list"
  currentCardInitialRotation :: real
  currentCardInitialOffset :: vec2
  isSettling :: bool
  settleProgress :: real
  settleStackRotations :: "real list"
  settleStackOffsets :: "vec2 list"
  settleStackDarkenFactors :: "real option list"
  currentTexture :: "texture option"
  nextTextures :: "texture list"

text \<open>
  The pose of a new stack card, the same statements in \<^verbatim>\<open>loadCurrentCards\<close> and in
  \<^verbatim>\<open>loadNextStackCard\<close>: a rotation, then an offset scaled by the ratio of the viewport to
  a 1920 by 1080 screen. Three draws, in this order.
\<close>

definition randomStackPose :: "'a config_scheme \<Rightarrow> window \<Rightarrow> rng \<Rightarrow> (real \<times> vec2) \<times> rng" where
  "randomStackPose cfg win g =
     (let (r1, g1) = Math_random g;
          rotation = (r1 - 0.5) * stackRotationRange cfg;
          baseScreenWidth = 1920;
          baseScreenHeight = 1080;
          screenRatio = min (innerWidth win / baseScreenWidth) (innerHeight win / baseScreenHeight);
          (r2, g2) = Math_random g1;
          offsetX = (r2 - 0.5) * stackOffsetRange cfg * screenRatio;
          (r3, g3) = Math_random g2;
          offsetY = (r3 - 0.5) * stackOffsetRange cfg * screenRatio
      in ((rotation, \<lparr> xcoord = offsetX, ycoord = offsetY \<rparr>), g3))"

text \<open>
  Loading a texture is the identity of its path here: the fetch is taken to succeed and
  the cache is transparent. A path that is \<^verbatim>\<open>null\<close>, \<^verbatim>\<open>undefined\<close> or empty is falsy:
  \<open>truthy_path\<close> keeps the paths that pass \<^verbatim>\<open>if (cardPath)\<close>.
  \<^verbatim>\<open>loadCurrentCards\<close> fails (\<open>TextureLoadFailed\<close>) when the path of the current card is
  \<^verbatim>\<open>undefined\<close>: there is no image to decode.
\<close>

definition truthy_path :: "string option \<Rightarrow> string option" where
  "truthy_path p = (case p of None \<Rightarrow> None | Some s \<Rightarrow> if s = [] then None else Some s)"

text \<open>The loop \<^verbatim>\<open>for (let i = 1; i <= cardsToPreload; i++)\<close> of \<^verbatim>\<open>loadCurrentCards\<close>.\<close>

fun preloadLoop ::
  "'a config_scheme \<Rightarrow> window \<Rightarrow> StateManager \<Rightarrow> string list \<Rightarrow> int list \<Rightarrow>
   texture list \<times> real list \<times> vec2 list \<Rightarrow> rng \<Rightarrow> (texture list \<times> real list \<times> vec2 list) \<times> rng" where
  "preloadLoop cfg win sm cs [] acc g = (acc, g)"
| "preloadLoop cfg win sm cs (i # rest) (ts, rs, os) g =
     (let cardPath = getStackCardPath sm cs i in
      case truthy_path cardPath of
        Some path \<Rightarrow>
          (let ((rotation, offset), g') = randomStackPose cfg win g
           in preloadLoop cfg win sm cs rest
                (ts @ [Texture path], rs @ [rotation], os @ [offset]) g')
      | None \<Rightarrow> preloadLoop cfg win sm cs rest (ts, rs, os) g)"

datatype app_error = TextureLoadFailed

definition loadCurrentCards ::
  "config \<Rightarrow> window \<Rightarrow> CardStudyApp \<Rightarrow> rng \<Rightarrow> app_error + (CardStudyApp \<times> rng)" where
  "loadCurrentCards cfg win app g =
     (let currentCardPath = getCurrentCardPath (stateManager app) (cards app) in
      case currentCardPath of
        None \<Rightarrow> Inl TextureLoadFailed
      | Some path \<Rightarrow>
         (let cardsToPreload = min (preloadCount cfg) (getRemainingCards (stateManager app));
              ((ts, rs, os), g') =
                 preloadLoop cfg win (stateManager app) (cards app) [1 .. cardsToPreload] ([], [], []) g
          in Inr (app \<lparr> currentTexture := Some (Texture path), nextTextures := ts,
                         cardRotations := rs, cardOffsets := os \<rparr>, g')))"

definition loadNextStackCard :: "config \<Rightarrow> window \<Rightarrow> CardStudyApp \<Rightarrow> rng \<Rightarrow> CardStudyApp \<times> rng" where
  "loadNextStackCard cfg win app g =
     (let cardPath = getStackCardPath (stateManager app) (cards app)
                       (int (length (nextTextures app)) + 1) in
      case truthy_path cardPath of
        Some path \<Rightarrow>
          (let ((rotation, offset), g') = randomStackPose cfg win g
           in (app \<lparr> nextTextures := nextTextures app @ [Texture path],
                      cardRotations := cardRotations app @ [rotation],
                      cardOffsets := cardOffsets app @ [offset],
                      cardDarkenFactors := cardDarkenFactors app @ [None] \<rparr>, g'))
      | None \<Rightarrow> (app, g))"

text \<open>
  The first statements of \<^verbatim>\<open>onCardThrowComplete\<close>, up to the call of \<^verbatim>\<open>advance()\<close>: the
  pose of the next card is captured and the brightness of every stack card is saved
  before the stack shifts. The result is the application with the pose captured.
\<close>

definition onCardThrowComplete_capture ::
  "config \<Rightarrow> CardStudyApp \<Rightarrow> CardStudyApp \<times> real \<times> vec2" where
  "onCardThrowComplete_capture cfg app =
     (let nextCardRotation = (if length (cardRotations app) > 0 then cardRotations app ! 0 else 0);
          nextCardOffset = (if length (cardOffsets app) > 0
                            then \<lparr> xcoord = xcoord (cardOffsets app ! 0),
                                   ycoord = ycoord (cardOffsets app ! 0) \<rparr>
                            else \<lparr> xcoord = 0, ycoord = 0 \<rparr>);
          saved = map (\<lambda>i. let oldStackLayer = int i + 1 in
                            Some (1.0 - (real_of_int oldStackLayer * stackDarkenPerLayer cfg)))
                      [0 ..< length (nextTextures app)]
      in (app \<lparr> isAnimating := False, cardDarkenFactors := saved \<rparr>,
          nextCardRotation, nextCardOffset))"

text \<open>
  One stack card of \<^verbatim>\<open>render\<close>. \<^verbatim>\<open>offsetsArray[i] || { x: 0, y: 0 }\<close> and
  \<^verbatim>\<open>rotationsArray[i] || 0\<close> fall back where the array has no entry at \<open>i\<close>.
\<close>

definition renderStack :: "config \<Rightarrow> window \<Rightarrow> CardStudyApp \<Rightarrow> int \<Rightarrow> int \<Rightarrow> nat \<Rightarrow> draw" where
  "renderStack cfg win app remaining stackSize i =
     (let maxStack = maxStackCards cfg;
          depth = depthStackBase cfg + (real i * depthStackIncrement cfg);
          stackLayer = int i + 1;
          useSnapshots = isSettling app;
          rotationsArray = (if useSnapshots then settleStackRotations app else cardRotations app);
          offsetsArray = (if useSnapshots then settleStackOffsets app else cardOffsets app);
          darkenArray = (if useSnapshots then settleStackDarkenFactors app
                         else cardDarkenFactors app);
          pixelOffset = (case js_index offsetsArray (int i) of
                           Some v \<Rightarrow> v | None \<Rightarrow> \<lparr> xcoord = 0, ycoord = 0 \<rparr>);
          totalOffsetX = xcoord pixelOffset;
          totalOffsetY = ycoord pixelOffset;
          normalizedOffsetX = (totalOffsetX / innerWidth win) * 2;
          normalizedOffsetY = (totalOffsetY / innerHeight win) * 2;
          rotation = (case js_index rotationsArray (int i) of Some r \<Rightarrow> r | None \<Rightarrow> 0);
          scale = 1.0;
          darkenFactor =
            (case (if isSettling app \<and> i < length darkenArray then darkenArray ! i else None) of
               Some oldDarken \<Rightarrow>
                 (let newDarken = 1.0 - (real_of_int stackLayer * stackDarkenPerLayer cfg);
                      eased = easeOutCubic (settleProgress app)
                  in oldDarken + (newDarken - oldDarken) * eased)
             | None \<Rightarrow> 1.0 - (real_of_int stackLayer * stackDarkenPerLayer cfg));
          opacity = stackOpacity maxStack remaining stackSize (int i)
      in \<lparr> draw_texture = nextTextures app ! i, draw_offsetX = normalizedOffsetX,
           draw_offsetY = normalizedOffsetY, draw_scale = scale, draw_rotation = rotation,
           draw_depth = depth, draw_opacity = opacity, draw_darkenFactor = darkenFactor \<rparr>)"

text \<open>The current card of \<^verbatim>\<open>render\<close>, drawn last.\<close>

definition renderCurrent :: "config \<Rightarrow> window \<Rightarrow> CardStudyApp \<Rightarrow> texture \<Rightarrow> draw" where
  "renderCurrent cfg win app tex =
     (let idle = \<lparr> tr_offsetX = 0, tr_offsetY = 0, tr_rotation = 0, tr_opacity = 1.0,
                   tr_darken = 1.0 \<rparr>;
          t = (if isAnimating app then
                 (let eased = easeOutCubic (animationProgress app) in
                  idle \<lparr> tr_offsetX := xcoord (throwDirection app) * eased,
                         tr_offsetY := ycoord (throwDirection app) * eased,
                         tr_rotation := throwRotation app * eased,
                         tr_opacity := 1.0 - animationProgress app \<rparr>)
               else if isSettling app then
                 (let eased = easeOutCubic (settleProgress app);
                      rotation = currentCardInitialRotation app * (1 - eased);
                      pixelOffsetX = xcoord (currentCardInitialOffset app) * (1 - eased);
                      pixelOffsetY = ycoord (currentCardInitialOffset app) * (1 - eased);
                      offsetX = (pixelOffsetX / innerWidth win) * 2;
                      offsetY = (pixelOffsetY / innerHeight win) * 2;
                      initialDarken = 1.0 - stackDarkenPerLayer cfg;
                      darken = initialDarken + (1.0 - initialDarken) * eased
                  in idle \<lparr> tr_offsetX := offsetX, tr_offsetY := offsetY,
                            tr_rotation := rotation, tr_darken := darken \<rparr>)
               else idle)
      in \<lparr> draw_texture = tex, draw_offsetX = tr_offsetX t, draw_offsetY = tr_offsetY t,
           draw_scale = 1.0, draw_rotation = tr_rotation t, draw_depth = depthCurrent cfg,
           draw_opacity = tr_opacity t, draw_darkenFactor = tr_darken t \<rparr>)"

text \<open>
  One frame of \<^verbatim>\<open>render\<close>: the loop over the stack from the back (\<open>i = stackSize - 1\<close>)
  to the front (\<open>i = 0\<close>), then the current card.
\<close>

definition renderStackCards :: "config \<Rightarrow> window \<Rightarrow> CardStudyApp \<Rightarrow> draw list" where
  "renderStackCards cfg win app =
     (let remaining = getRemainingCards (stateManager app);
          maxStack = maxStackCards cfg;
          stackSize = min maxStack (remaining - 1)
      in concat (map (\<lambda>i. if i < length (nextTextures app)
                           then [renderStack cfg win app remaining stackSize i] else [])
                     (rev [0 ..< nat stackSize])))"

definition render :: "config \<Rightarrow> window \<Rightarrow> CardStudyApp \<Rightarrow> draw list" where
  "render cfg win app =
     renderStackCards cfg win app
     @ (case currentTexture app of
          None \<Rightarrow> []
        | Some tex \<Rightarrow> [renderCurrent cfg win app tex])"

section \<open>Well-formed jars and numbers\<close>

text \<open>
  What the assignment to \<^verbatim>\<open>document.cookie\<close> guarantees of every cookie it stores: a name
  holds no \<^verbatim>\<open>;\<close> and no \<^verbatim>\<open>=\<close> and is stripped of blanks, a value holds no \<^verbatim>\<open>;\<close>. The jars
  considered hold no cookie without a name.
\<close>

definition cookie_name_ok :: "string \<Rightarrow> bool" where
  "cookie_name_ok n \<longleftrightarrow> n \<noteq> [] \<and> CHR '';'' \<notin> set n \<and> CHR ''='' \<notin> set n
     \<and> \<not> is_blank (hd n) \<and> \<not> is_blank (last n)"

definition cookie_value_ok :: "string \<Rightarrow> bool" where
  "cookie_value_ok v \<longleftrightarrow>
     CHR '';'' \<notin> set v \<and> (v = [] \<or> \<not> is_blank (hd v) \<and> \<not> is_blank (last v))"

definition wf_jar :: "cookie_jar \<Rightarrow> bool" where
  "wf_jar jar \<longleftrightarrow> (\<forall>(n, v) \<in> set jar. cookie_name_ok n \<and> CHR '';'' \<notin> set v)"

text \<open>The integers that a JavaScript number holds exactly.\<close>

definition safe_int :: "int \<Rightarrow> bool" where
  "safe_int i \<longleftrightarrow> \<bar>i\<bar> \<le> 2 ^ 53"

text \<open>A numeral ends at a character that is no digit and opens no fraction or exponent.\<close>

definition ends_number :: "string \<Rightarrow> bool" where
  "ends_number rest \<longleftrightarrow>
     (case rest of [] \<Rightarrow> True
      | c # _ \<Rightarrow> \<not> is_digit c \<and> c \<noteq> CHR ''.'' \<and> c \<noteq> CHR ''e'' \<and> c \<noteq> CHR ''E'')"

section \<open>Example states\<close>

definition example_window :: window where
  "example_window = \<lparr> innerWidth = 1920, innerHeight = 1080 \<rparr>"

definition example_window_4k :: window where
  "example_window_4k = \<lparr> innerWidth = 3840, innerHeight = 2160 \<rparr>"

definition rng_zero :: rng where
  "rng_zero = (\<lambda>n. random_zero)"

definition rng_half :: rng where
  "rng_half = (\<lambda>n. random_half)"

definition example_manager :: StateManager where
  "example_manager = \<lparr> totalCards = 3, shuffledIndices = [2, 0, 1], currentCardIndex = 0 \<rparr>"

definition example_app :: CardStudyApp where
  "example_app = \<lparr> cards = [''a.webp'', ''b.webp'', ''c.webp''],
     stateManager = example_manager,
     isAnimating = False, animationProgress = 0,
     throwDirection = \<lparr> xcoord = 2, ycoord = 1 \<rparr>, throwRotation = 90,
     cardRotations = [], cardOffsets = [], cardDarkenFactors = [],
     currentCardInitialRotation = 4, currentCardInitialOffset = \<lparr> xcoord = 24, ycoord = - 12 \<rparr>,
     isSettling = False, settleProgress = 1,
     settleStackRotations = [], settleStackOffsets = [], settleStackDarkenFactors = [],
     currentTexture = None, nextTextures = [] \<rparr>"

definition example_controller :: AnimationController where
  "example_controller = \<lparr> ac_isAnimating = True, ac_animationType = Some Throw,
     ac_progress = 1 / 2, ac_startTime = 0,
     ac_throwDirection = \<lparr> xcoord = 2, ycoord = 1 \<rparr>, ac_throwRotation = 90,
     ac_settleFromRotation = 4, ac_settleFromOffset = \<lparr> xcoord = 24, ycoord = - 12 \<rparr> \<rparr>"

definition example_stack :: CardStack where
  "example_stack = \<lparr> textures = [Texture ''b.webp''], rotations = [3],
     offsets = [\<lparr> xcoord = 10, ycoord = - 20 \<rparr>], oldDarkenFactors = [None] \<rparr>"

definition example_app_modular :: CardStudyApp_modular where
  "example_app_modular = \<lparr> m_stateManager = example_manager,
     m_animationController = example_controller, m_cardStack = example_stack,
     m_currentTexture = Some (Texture ''c.webp'') \<rparr>"

definition example_app_loaded :: CardStudyApp where
  "example_app_loaded = example_app \<lparr> currentTexture := Some (Texture ''c.webp''),
     nextTextures := [Texture ''a.webp'', Texture ''b.webp''],
     cardRotations := [- 5, - 5],
     cardOffsets := [\<lparr> xcoord = - 30, ycoord = - 30 \<rparr>, \<lparr> xcoord = - 30, ycoord = - 30 \<rparr>] \<rparr>"

definition example_browser :: browser where
  "example_browser = \<lparr> cookies = [(''theme'', ''dark'')], random = rng_zero,
     expiry_text = (\<lambda>days. ''Wed, 03 Nov 2027 05:35:00 GMT'') \<rparr>"

definition example_browser_with :: "string \<Rightarrow> browser" where
  "example_browser_with text =
     example_browser \<lparr> cookies := [(''theme'', ''dark''), (''cardStudyProgress'', text)] \<rparr>"

text \<open>Every stack pose lies within the bounds of \<^verbatim>\<open>app.js\<close> for the viewport \<open>win\<close>.\<close>

definition pose_ok :: "window \<Rightarrow> real list \<Rightarrow> vec2 list \<Rightarrow> bool" where
  "pose_ok win rs os \<longleftrightarrow>
     (\<forall>r \<in> set rs. \<bar>r\<bar> \<le> 5) \<and>
     (\<forall>off \<in> set os.
        \<bar>xcoord off\<bar> \<le> 30 * \<bar>min (innerWidth win / 1920) (innerHeight win / 1080)\<bar>
      \<and> \<bar>ycoord off\<bar> \<le> 30 * \<bar>min (innerWidth win / 1920) (innerHeight win / 1080)\<bar>)"

section \<open>The current card: throw and settle\<close>

text \<open>
  C5. For every progress \<open>p\<close> (in particular every \<open>p\<close> in \<open>[0, 1]\<close>), with
  \<open>eased = 1 - (1 - p)\<^sup>3\<close>: during the throw the current card is drawn at offset
  \<open>throwDirection * eased\<close>, rotation \<open>throwRotation * eased\<close>, opacity \<open>1 - p\<close> and full
  brightness; during the settle it is drawn at offset \<open>from * (1 - eased)\<close> divided by the
  live viewport size and doubled, rotation \<open>from * (1 - eased)\<close>, opacity 1 and brightness
  \<open>(1 - d) + d * eased\<close>, where \<open>d\<close> is \<^verbatim>\<open>stackDarkenPerLayer\<close>. This holds for \<^verbatim>\<open>render\<close> of
  \<^verbatim>\<open>app.js\<close> and for \<^verbatim>\<open>renderCurrentCard\<close> with \<^verbatim>\<open>getThrowTransform\<close> and
  \<^verbatim>\<open>getSettleTransform\<close> of the modular variant. Numbers are reals; the viewport is
  positive where a coordinate is divided by it.
\<close>

theorem interpolation_law:
  fixes p :: real
  shows
    "(isAnimating app \<and> animationProgress app = p \<longrightarrow>
      renderCurrent cfg win app tex =
        \<lparr> draw_texture = tex,
          draw_offsetX = xcoord (throwDirection app) * (1 - (1 - p) ^ 3),
          draw_offsetY = ycoord (throwDirection app) * (1 - (1 - p) ^ 3),
          draw_scale = 1,
          draw_rotation = throwRotation app * (1 - (1 - p) ^ 3),
          draw_depth = depthCurrent cfg,
          draw_opacity = 1 - p,
          draw_darkenFactor = 1 \<rparr>)
   \<and> (\<not> isAnimating app \<and> isSettling app \<and> settleProgress app = p
         \<and> 0 < innerWidth win \<and> 0 < innerHeight win \<longrightarrow>
      renderCurrent cfg win app tex =
        \<lparr> draw_texture = tex,
          draw_offsetX =
            xcoord (currentCardInitialOffset app) * (1 - (1 - (1 - p) ^ 3)) / innerWidth win * 2,
          draw_offsetY =
            ycoord (currentCardInitialOffset app) * (1 - (1 - (1 - p) ^ 3)) / innerHeight win * 2,
          draw_scale = 1,
          draw_rotation = currentCardInitialRotation app * (1 - (1 - (1 - p) ^ 3)),
          draw_depth = depthCurrent cfg,
          draw_opacity = 1,
          draw_darkenFactor =
            (1 - stackDarkenPerLayer cfg) + stackDarkenPerLayer cfg * (1 - (1 - p) ^ 3) \<rparr>)
   \<and> (ac_isAnimating (m_animationController appm)
         \<and> ac_animationType (m_animationController appm) = Some Throw
         \<and> ac_progress (m_animationController appm) = p \<longrightarrow>
      renderCurrentCard cfgm w h appm tex =
        \<lparr> draw_texture = tex,
          draw_offsetX = xcoord (ac_throwDirection (m_animationController appm)) * (1 - (1 - p) ^ 3),
          draw_offsetY = ycoord (ac_throwDirection (m_animationController appm)) * (1 - (1 - p) ^ 3),
          draw_scale = 1,
          draw_rotation = ac_throwRotation (m_animationController appm) * (1 - (1 - p) ^ 3),
          draw_depth = depthCurrent cfgm,
          draw_opacity = 1 - p,
          draw_darkenFactor = 1 \<rparr>)
   \<and> (ac_isAnimating (m_animationController appm)
         \<and> ac_animationType (m_animationController appm) = Some Settle
         \<and> ac_progress (m_animationController appm) = p \<and> 0 < w \<and> 0 < h \<longrightarrow>
      renderCurrentCard cfgm w h appm tex =
        \<lparr> draw_texture = tex,
          draw_offsetX =
            xcoord (ac_settleFromOffset (m_animationController appm)) * (1 - (1 - (1 - p) ^ 3)) / w * 2,
          draw_offsetY =
            ycoord (ac_settleFromOffset (m_animationController appm)) * (1 - (1 - (1 - p) ^ 3)) / h * 2,
          draw_scale = 1,
          draw_rotation = ac_settleFromRotation (m_animationController appm) * (1 - (1 - (1 - p) ^ 3)),
          draw_depth = depthCurrent cfgm,
          draw_opacity = 1,
          draw_darkenFactor =
            (1 - stackDarkenPerLayer cfgm) + stackDarkenPerLayer cfgm * (1 - (1 - p) ^ 3) \<rparr>)"
  by (simp add: renderCurrent_def renderCurrentCard_def getThrowTransform_def
      getSettleTransform_def easeOutCubic_def Let_def algebra_simps)

theorem interpolation_law_witness:
  "renderCurrent CONFIG example_window
     (example_app \<lparr> isAnimating := True, animationProgress := 1 / 2 \<rparr>) (Texture ''a.webp'')
   = \<lparr> draw_texture = Texture ''a.webp'', draw_offsetX = 7 / 4, draw_offsetY = 7 / 8,
       draw_scale = 1, draw_rotation = 315 / 4, draw_depth = 1 / 10, draw_opacity = 1 / 2,
       draw_darkenFactor = 1 \<rparr>
   \<and> renderCurrent CONFIG example_window
     (example_app \<lparr> isSettling := True, settleProgress := 1 / 2 \<rparr>) (Texture ''a.webp'')
   = \<lparr> draw_texture = Texture ''a.webp'', draw_offsetX = 1 / 320, draw_offsetY = - (1 / 360),
       draw_scale = 1, draw_rotation = 1 / 2, draw_depth = 1 / 10, draw_opacity = 1,
       draw_darkenFactor = 31 / 32 \<rparr>
   \<and> renderCurrentCard CONFIG_modular 1920 1080 example_app_modular (Texture ''c.webp'')
   = \<lparr> draw_texture = Texture ''c.webp'', draw_offsetX = 7 / 4, draw_offsetY = 7 / 8,
       draw_scale = 1, draw_rotation = 315 / 4, draw_depth = 1 / 10, draw_opacity = 1 / 2,
       draw_darkenFactor = 1 \<rparr>
   \<and> renderCurrentCard CONFIG_modular 1920 1080
     (example_app_modular \<lparr> m_animationController :=
        example_controller \<lparr> ac_animationType := Some Settle \<rparr> \<rparr>) (Texture ''c.webp'')
   = \<lparr> draw_texture = Texture ''c.webp'', draw_offsetX = 1 / 320, draw_offsetY = - (1 / 360),
       draw_scale = 1, draw_rotation = 1 / 2, draw_depth = 1 / 10, draw_opacity = 1,
       draw_darkenFactor = 157 / 160 \<rparr>"
  using
    interpolation_law [of "example_app \<lparr> isAnimating := True, animationProgress := 1 / 2 \<rparr>"
      "1 / 2" CONFIG example_window "Texture ''a.webp''"]
    interpolation_law [of "example_app \<lparr> isSettling := True, settleProgress := 1 / 2 \<rparr>"
      "1 / 2" CONFIG example_window "Texture ''a.webp''"]
    interpolation_law [of _ "1 / 2" _ _ "Texture ''c.webp''" example_app_modular CONFIG_modular 1920 1080]
    interpolation_law [of _ "1 / 2" _ _ "Texture ''c.webp''"
      "example_app_modular \<lparr> m_animationController :=
        example_controller \<lparr> ac_animationType := Some Settle \<rparr> \<rparr>" CONFIG_modular 1920 1080]
  by (simp add: example_app_def example_window_def CONFIG_def CONFIG_modular_def
      example_app_modular_def example_controller_def power3_eq_cube)

section \<open>Stack poses\<close>

lemma random_real_bounds: "0 \<le> random_real r \<and> random_real r < 1"
  using random_real [of r] by simp

lemma Math_random_bounds: "Math_random g = (r, g') \<Longrightarrow> 0 \<le> r \<and> r < 1"
  by (auto simp: Math_random_def random_real_bounds)

lemma centred_bound:
  fixes r c :: real
  assumes "0 \<le> r" "r < 1" "0 \<le> c"
  shows "\<bar>(r - 0.5) * c\<bar> \<le> c / 2"
proof -
  have "\<bar>r - 0.5\<bar> \<le> 1 / 2" using assms(1,2) by linarith
  then have "\<bar>r - 0.5\<bar> * c \<le> (1 / 2) * c" using assms(3) by (rule mult_right_mono)
  then show ?thesis using assms(3) by (simp add: abs_mult)
qed

lemma randomStackPose_bounds:
  assumes "randomStackPose cfg win g = ((rot, off), g')"
    and "stackRotationRange cfg = 10" and "stackOffsetRange cfg = 60"
  shows "\<bar>rot\<bar> \<le> 5"
    and "\<bar>xcoord off\<bar> \<le> 30 * \<bar>min (innerWidth win / 1920) (innerHeight win / 1080)\<bar>"
    and "\<bar>ycoord off\<bar> \<le> 30 * \<bar>min (innerWidth win / 1920) (innerHeight win / 1080)\<bar>"
proof -
  obtain r1 g1 where a: "Math_random g = (r1, g1)" by (cases "Math_random g")
  obtain r2 g2 where b: "Math_random g1 = (r2, g2)" by (cases "Math_random g1")
  obtain r3 g3 where c: "Math_random g2 = (r3, g3)" by (cases "Math_random g2")
  let ?s = "min (innerWidth win / 1920) (innerHeight win / 1080)"
  from assms(1) a b c have rot: "rot = (r1 - 0.5) * 10"
    and x: "xcoord off = (r2 - 0.5) * 60 * ?s" and y: "ycoord off = (r3 - 0.5) * 60 * ?s"
    by (auto simp: randomStackPose_def Let_def assms(2,3))
  have "\<bar>(r1 - 0.5) * 10\<bar> \<le> 10 / 2"
    using Math_random_bounds [OF a] by (intro centred_bound) auto
  then show "\<bar>rot\<bar> \<le> 5" by (simp add: rot)
  have "\<bar>(r2 - 0.5) * 60\<bar> \<le> 60 / 2"
    using Math_random_bounds [OF b] by (intro centred_bound) auto
  then have "\<bar>(r2 - 0.5) * 60\<bar> * \<bar>?s\<bar> \<le> 30 * \<bar>?s\<bar>"
    by (intro mult_right_mono) auto
  then show "\<bar>xcoord off\<bar> \<le> 30 * \<bar>?s\<bar>" by (simp add: x abs_mult)
  have "\<bar>(r3 - 0.5) * 60\<bar> \<le> 60 / 2"
    using Math_random_bounds [OF c] by (intro centred_bound) auto
  then have "\<bar>(r3 - 0.5) * 60\<bar> * \<bar>?s\<bar> \<le> 30 * \<bar>?s\<bar>"
    by (intro mult_right_mono) auto
  then show "\<bar>ycoord off\<bar> \<le> 30 * \<bar>?s\<bar>" by (simp add: y abs_mult)
qed

lemma preloadLoop_bounds:
  assumes "stackRotationRange cfg = 10" and "stackOffsetRange cfg = 60"
  shows "preloadLoop cfg win sm cs is (ts, rs, os) g = ((ts', rs', os'), g') \<Longrightarrow>
     pose_ok win rs os \<Longrightarrow> pose_ok win rs' os'"
proof (induction "is" arbitrary: ts rs os g)
  case Nil
  then show ?case by simp
next
  case (Cons i rest)
  show ?case
  proof (cases "truthy_path (getStackCardPath sm cs i)")
    case None
    with Cons show ?thesis by simp
  next
    case (Some path)
    obtain rot off g1 where p: "randomStackPose cfg win g = ((rot, off), g1)"
      by (metis prod.exhaust)
    from Cons.prems(1) Some p
    have "preloadLoop cfg win sm cs rest (ts @ [Texture path], rs @ [rot], os @ [off]) g1
          = ((ts', rs', os'), g')" by simp
    moreover have "pose_ok win (rs @ [rot]) (os @ [off])"
      using Cons.prems(2) randomStackPose_bounds [OF p assms] by (auto simp: pose_ok_def)
    ultimately show ?thesis by (rule Cons.IH)
  qed
qed


lemma loadCurrentCards_bounds:
  assumes "stackRotationRange cfg = 10" and "stackOffsetRange cfg = 60"
    and "loadCurrentCards cfg win app g = Inr (app', g')"
  shows "pose_ok win (cardRotations app') (cardOffsets app')"
proof -
  from assms(3) obtain path where "getCurrentCardPath (stateManager app) (cards app) = Some path"
    by (auto simp: loadCurrentCards_def split: option.splits)
  let ?n = "min (preloadCount cfg) (getRemainingCards (stateManager app))"
  obtain ts rs os g1 where
    l: "preloadLoop cfg win (stateManager app) (cards app) [1 .. ?n] ([], [], []) g = ((ts, rs, os), g1)"
    by (metis prod.exhaust)
  have "pose_ok win [] []" by (simp add: pose_ok_def)
  with l have "pose_ok win rs os" by (rule preloadLoop_bounds [OF assms(1,2)])
  moreover from assms(3) l have "cardRotations app' = rs" "cardOffsets app' = os"
    by (auto simp: loadCurrentCards_def Let_def split: option.splits)
  ultimately show ?thesis by simp
qed

lemma loadNextStackCard_bounds:
  assumes "stackRotationRange cfg = 10" and "stackOffsetRange cfg = 60"
    and "loadNextStackCard cfg win app g = (app', g')"
    and "pose_ok win (cardRotations app) (cardOffsets app)"
  shows "pose_ok win (cardRotations app') (cardOffsets app')"
proof (cases "truthy_path (getStackCardPath (stateManager app) (cards app)
                (int (length (nextTextures app)) + 1))")
  case None
  with assms(3,4) show ?thesis by (simp add: loadNextStackCard_def)
next
  case (Some path)
  obtain rot off g1 where p: "randomStackPose cfg win g = ((rot, off), g1)"
    by (metis prod.exhaust)
  from assms(3) Some p have "cardRotations app' = cardRotations app @ [rot]"
    "cardOffsets app' = cardOffsets app @ [off]"
    by (auto simp: loadNextStackCard_def)
  then show ?thesis
    using assms(4) randomStackPose_bounds [OF p assms(1,2)] by (auto simp: pose_ok_def)
qed

lemma CardStack_add_bounds:
  assumes "stackRotationRange cfg = 10" and "stackOffsetRange cfg = 60"
    and "CardStack_add cfg tex st g = (st', g')"
  shows "\<exists>rot off. rotations st' = rotations st @ [rot] \<and> offsets st' = offsets st @ [off]
           \<and> \<bar>rot\<bar> \<le> 5 \<and> \<bar>xcoord off\<bar> \<le> 30 \<and> \<bar>ycoord off\<bar> \<le> 30"
proof -
  obtain r1 g1 where a: "Math_random g = (r1, g1)" by (cases "Math_random g")
  obtain r2 g2 where b: "Math_random g1 = (r2, g2)" by (cases "Math_random g1")
  obtain r3 g3 where c: "Math_random g2 = (r3, g3)" by (cases "Math_random g2")
  from assms(3) a b c have
    "rotations st' = rotations st @ [(r1 - 0.5) * 10]"
    "offsets st' = offsets st @ [\<lparr> xcoord = (r2 - 0.5) * 60, ycoord = (r3 - 0.5) * 60 \<rparr>]"
    by (auto simp: CardStack_add_def Let_def assms(1,2))
  moreover have "\<bar>(r1 - 0.5) * 10\<bar> \<le> 10 / 2"
    using Math_random_bounds [OF a] by (intro centred_bound) auto
  moreover have "\<bar>(r2 - 0.5) * 60\<bar> \<le> 60 / 2"
    using Math_random_bounds [OF b] by (intro centred_bound) auto
  moreover have "\<bar>(r3 - 0.5) * 60\<bar> \<le> 60 / 2"
    using Math_random_bounds [OF c] by (intro centred_bound) auto
  ultimately show ?thesis by simp
qed

lemma Math_random_rng_zero: "Math_random rng_zero = (0, rng_zero)"
  by (simp add: Math_random_def rng_zero_def random_zero.rep_eq)

lemma upto_1_3: "[1 .. 3] = [1, 2, 3 :: int]"
  by (simp add: upto.simps)

lemma loadCurrentCards_example:
  "loadCurrentCards CONFIG example_window example_app rng_zero = Inr (example_app_loaded, rng_zero)"
  by (simp add: loadCurrentCards_def example_app_def example_manager_def CONFIG_def
      preloadCount_def getRemainingCards_def getCurrentCardPath_def getStackCardPath_def
      js_index_def upto_1_3 truthy_path_def randomStackPose_def Math_random_rng_zero
      example_window_def example_app_loaded_def)

text \<open>
  C6, as amended. Under the default ranges (\<^verbatim>\<open>stackRotationRange = 10\<close>,
  \<^verbatim>\<open>stackOffsetRange = 60\<close>) every stack entry gets a rotation within \<open>[-5, 5]\<close> degrees.
  \<^verbatim>\<open>CardStack.add\<close> of the modular variant gives offset components within \<open>[-30, 30]\<close>
  pixels. \<^verbatim>\<open>loadCurrentCards\<close> and \<^verbatim>\<open>loadNextStackCard\<close> of \<^verbatim>\<open>app.js\<close> multiply the offset by
  \<open>s = min (innerWidth / 1920) (innerHeight / 1080)\<close>, so its components lie within
  \<open>[-30 * s, 30 * s]\<close> (\<open>pose_ok\<close>): within \<open>[-30, 30]\<close> when the viewport is at most 1920
  wide or at most 1080 high, and beyond it on a larger one.
\<close>

theorem stack_pose_bounds:
  fixes cfg :: config and cfgm :: config_modular
  assumes "stackRotationRange cfg = 10" and "stackOffsetRange cfg = 60"
    and "stackRotationRange cfgm = 10" and "stackOffsetRange cfgm = 60"
  shows
    "(CardStack_add cfgm tex st g = (st', g') \<longrightarrow>
        (\<exists>rot off. rotations st' = rotations st @ [rot] \<and> offsets st' = offsets st @ [off]
           \<and> \<bar>rot\<bar> \<le> 5 \<and> \<bar>xcoord off\<bar> \<le> 30 \<and> \<bar>ycoord off\<bar> \<le> 30))
   \<and> (loadCurrentCards cfg win app g = Inr (app', ga) \<longrightarrow>
        pose_ok win (cardRotations app') (cardOffsets app'))
   \<and> (loadNextStackCard cfg win app g = (app'', gb)
        \<and> pose_ok win (cardRotations app) (cardOffsets app) \<longrightarrow>
        pose_ok win (cardRotations app'') (cardOffsets app''))
   \<and> (pose_ok win rs os \<and> 0 \<le> innerWidth win \<and> 0 \<le> innerHeight win
        \<and> (innerWidth win \<le> 1920 \<or> innerHeight win \<le> 1080) \<longrightarrow>
        (\<forall>r \<in> set rs. \<bar>r\<bar> \<le> 5)
        \<and> (\<forall>off \<in> set os. \<bar>xcoord off\<bar> \<le> 30 \<and> \<bar>ycoord off\<bar> \<le> 30))"
proof (intro conjI impI)
  assume "CardStack_add cfgm tex st g = (st', g')"
  then show "\<exists>rot off. rotations st' = rotations st @ [rot] \<and> offsets st' = offsets st @ [off]
           \<and> \<bar>rot\<bar> \<le> 5 \<and> \<bar>xcoord off\<bar> \<le> 30 \<and> \<bar>ycoord off\<bar> \<le> 30"
    by (rule CardStack_add_bounds [OF assms(3,4)])
next
  assume "loadCurrentCards cfg win app g = Inr (app', ga)"
  then show "pose_ok win (cardRotations app') (cardOffsets app')"
    by (rule loadCurrentCards_bounds [OF assms(1,2)])
next
  assume "loadNextStackCard cfg win app g = (app'', gb)
        \<and> pose_ok win (cardRotations app) (cardOffsets app)"
  then show "pose_ok win (cardRotations app'') (cardOffsets app'')"
    using loadNextStackCard_bounds [OF assms(1,2)] by blast
next
  assume a: "pose_ok win rs os \<and> 0 \<le> innerWidth win \<and> 0 \<le> innerHeight win
        \<and> (innerWidth win \<le> 1920 \<or> innerHeight win \<le> 1080)"
  let ?s = "min (innerWidth win / 1920) (innerHeight win / 1080)"
  from a have "0 \<le> ?s" "?s \<le> 1" by auto
  then have s: "30 * \<bar>?s\<bar> \<le> 30" by simp
  from a have p: "pose_ok win rs os" by simp
  from p show "\<forall>r \<in> set rs. \<bar>r\<bar> \<le> 5" unfolding pose_ok_def by blast
  from p have "\<forall>off \<in> set os. \<bar>xcoord off\<bar> \<le> 30 * \<bar>?s\<bar> \<and> \<bar>ycoord off\<bar> \<le> 30 * \<bar>?s\<bar>"
    unfolding pose_ok_def by blast
  with s show "\<forall>off \<in> set os. \<bar>xcoord off\<bar> \<le> 30 \<and> \<bar>ycoord off\<bar> \<le> 30"
    by (meson order_trans)
qed

theorem stack_pose_bounds_witness:
  "stackRotationRange CONFIG = 10 \<and> stackOffsetRange CONFIG = 60
   \<and> stackRotationRange CONFIG_modular = 10 \<and> stackOffsetRange CONFIG_modular = 60
   \<and> loadCurrentCards CONFIG example_window example_app rng_zero = Inr (example_app_loaded, rng_zero)
   \<and> pose_ok example_window (cardRotations example_app_loaded) (cardOffsets example_app_loaded)
   \<and> cardRotations example_app_loaded = [- 5, - 5]
   \<and> cardOffsets example_app_loaded
       = [\<lparr> xcoord = - 30, ycoord = - 30 \<rparr>, \<lparr> xcoord = - 30, ycoord = - 30 \<rparr>]"
proof -
  have c: "stackRotationRange CONFIG = 10" "stackOffsetRange CONFIG = 60"
    "stackRotationRange CONFIG_modular = 10" "stackOffsetRange CONFIG_modular = 60"
    by (simp_all add: CONFIG_def CONFIG_modular_def)
  from stack_pose_bounds [OF c, where win = example_window and app = example_app
      and g = rng_zero and app' = example_app_loaded and ga = rng_zero]
  have "pose_ok example_window (cardRotations example_app_loaded) (cardOffsets example_app_loaded)"
    using loadCurrentCards_example by blast
  with c loadCurrentCards_example show ?thesis
    by (simp add: example_app_loaded_def)
qed

text \<open>
  The bound of 30 pixels does not hold in \<^verbatim>\<open>app.js\<close> on every viewport (C6 as first
  stated): on a viewport of 3840 by 2160 the ratio \<open>s\<close> is
  2, and the draws \<open>0\<close> give both stack cards the offset \<open>(-60, -60)\<close>.
\<close>

theorem stack_offset_counterexample:
  "loadCurrentCards CONFIG example_window_4k example_app rng_zero
     = Inr (example_app_loaded \<lparr> cardOffsets :=
              [\<lparr> xcoord = - 60, ycoord = - 60 \<rparr>, \<lparr> xcoord = - 60, ycoord = - 60 \<rparr>] \<rparr>, rng_zero)
   \<and> stackRotationRange CONFIG = 10 \<and> stackOffsetRange CONFIG = 60
   \<and> \<not> (- 30 \<le> xcoord \<lparr> xcoord = - 60, ycoord = - 60 \<rparr>)"
  by (simp add: loadCurrentCards_def example_app_def example_manager_def CONFIG_def
      preloadCount_def getRemainingCards_def getCurrentCardPath_def getStackCardPath_def
      js_index_def upto_1_3 truthy_path_def randomStackPose_def Math_random_rng_zero
      example_window_4k_def example_app_loaded_def)

section \<open>The brightness saved before the stack shifts\<close>

lemma saveOldDarkenFactors_nth:
  "i < length (textures st) \<Longrightarrow>
   oldDarkenFactors (saveOldDarkenFactors cfg remaining st) ! i
     = Some (1 - real_of_int (min (maxStackCards cfg) (remaining - 1) - int i) * stackDarkenPerLayer cfg)"
  by (simp add: saveOldDarkenFactors_def Let_def)

lemma capture_nth:
  "i < length (nextTextures app) \<Longrightarrow>
   cardDarkenFactors (fst (onCardThrowComplete_capture cfg app)) ! i
     = Some (1 - real_of_int (int i + 1) * stackDarkenPerLayer cfg)"
  by (simp add: onCardThrowComplete_capture_def Let_def)

text \<open>
  C7, as amended. \<^verbatim>\<open>CardStack.saveOldDarkenFactors\<close> of the modular variant gives the
  entry at index \<open>i\<close> the value \<open>1 - (stackSize - i) * stackDarkenPerLayer\<close> with
  \<open>stackSize = min maxStackCards (remaining - 1)\<close>. The snapshot at the head of
  \<^verbatim>\<open>onCardThrowComplete\<close> in \<^verbatim>\<open>app.js\<close> counts the layer from the front instead: the entry at
  index \<open>i\<close> gets \<open>1 - (i + 1) * stackDarkenPerLayer\<close>. Both snapshots hold one value for
  every texture of the stack.
\<close>

theorem brightness_snapshot:
  "(i < length (textures st) \<longrightarrow>
      oldDarkenFactors (saveOldDarkenFactors cfgm remaining st) ! i
        = Some (1 - real_of_int (min (maxStackCards cfgm) (remaining - 1) - int i)
                    * stackDarkenPerLayer cfgm))
   \<and> length (oldDarkenFactors (saveOldDarkenFactors cfgm remaining st)) = length (textures st)
   \<and> (i < length (nextTextures app) \<longrightarrow>
      cardDarkenFactors (fst (onCardThrowComplete_capture cfg app)) ! i
        = Some (1 - real_of_int (int i + 1) * stackDarkenPerLayer cfg))
   \<and> length (cardDarkenFactors (fst (onCardThrowComplete_capture cfg app)))
        = length (nextTextures app)"
  by (simp add: saveOldDarkenFactors_nth capture_nth)
     (simp add: saveOldDarkenFactors_def onCardThrowComplete_capture_def Let_def)

theorem brightness_snapshot_witness:
  "0 < length (textures example_stack)
   \<and> oldDarkenFactors (saveOldDarkenFactors CONFIG_modular 2 example_stack) = [Some (17 / 20)]
   \<and> 1 < length (nextTextures example_app_loaded)
   \<and> cardDarkenFactors (fst (onCardThrowComplete_capture CONFIG example_app_loaded)) ! 1
       = Some (1 / 2)"
  using brightness_snapshot [of 0 example_stack CONFIG_modular 2]
    brightness_snapshot [of 1 _ _ _ example_app_loaded CONFIG]
  by (simp add: example_stack_def CONFIG_modular_def CONFIG_def example_app_loaded_def
      example_app_def saveOldDarkenFactors_def)

text \<open>
  The layer \<open>stackSize - i\<close> is not the one \<^verbatim>\<open>app.js\<close> saves (C7 as first stated): with three
  cards remaining and two on the stack, \<open>stackSize\<close> is 2, which would give index 0 the
  value \<open>1 - 2 * 0.25\<close>; the snapshot holds \<open>0.75\<close> there.
\<close>

theorem brightness_snapshot_counterexample:
  "getRemainingCards (stateManager example_app_loaded) = 3
   \<and> cardDarkenFactors (fst (onCardThrowComplete_capture CONFIG example_app_loaded))
       = [Some (3 / 4), Some (1 / 2)]
   \<and> cardDarkenFactors (fst (onCardThrowComplete_capture CONFIG example_app_loaded)) ! 0
       \<noteq> Some (1 - real_of_int (min (maxStackCards CONFIG)
                      (getRemainingCards (stateManager example_app_loaded) - 1) - 0)
                    * stackDarkenPerLayer CONFIG)"
  by (simp add: onCardThrowComplete_capture_def example_app_loaded_def example_app_def
      example_manager_def getRemainingCards_def CONFIG_def)

section \<open>Visibility near the end of the deck\<close>

text \<open>The methods of \<^verbatim>\<open>CardStack\<close> keep its arrays parallel.\<close>

lemma parallel_kept:
  "parallel CardStack_new"
  "parallel (CardStack_clear st)"
  "parallel st \<Longrightarrow> parallel (fst (CardStack_add cfg tex st g))"
  "parallel st \<Longrightarrow> parallel (CardStack_shift st)"
  "parallel (saveOldDarkenFactors cfg remaining st) \<longleftrightarrow>
     length (rotations st) = length (textures st) \<and> length (offsets st) = length (textures st)"
  by (auto simp: parallel_def CardStack_new_def CardStack_clear_def CardStack_add_def
      CardStack_shift_def saveOldDarkenFactors_def Let_def split: prod.splits)

lemma renderStack_in_render:
  assumes "i < length (nextTextures app)"
    and "int i < min (maxStackCards cfg) (getRemainingCards (stateManager app) - 1)"
  shows "renderStack cfg win app (getRemainingCards (stateManager app))
           (min (maxStackCards cfg) (getRemainingCards (stateManager app) - 1)) i
         \<in> set (renderStackCards cfg win app)"
proof -
  let ?n = "nat (min (maxStackCards cfg) (getRemainingCards (stateManager app) - 1))"
  from assms(2) have "i < ?n" by linarith
  then have "i \<in> set (rev [0 ..< ?n])" by simp
  with assms(1) show ?thesis
    unfolding renderStackCards_def Let_def by (auto simp del: set_rev set_upt)
qed

lemma renderStackCard_in_render:
  assumes "i < length (textures (m_cardStack app))"
    and "int i < min (maxStackCards cfg) (getRemainingCards (m_stateManager app) - 1)"
  shows "renderStackCard cfg w h app i
           (min (maxStackCards cfg) (getRemainingCards (m_stateManager app) - 1))
           (getRemainingCards (m_stateManager app))
         \<in> set (renderStackCards_modular cfg w h app)"
proof -
  let ?n = "nat (min (maxStackCards cfg) (getRemainingCards (m_stateManager app) - 1))"
  from assms(2) have "i < ?n" by linarith
  then have "i \<in> set (rev [0 ..< ?n])" by simp
  with assms(1) show ?thesis
    unfolding renderStackCards_modular_def Let_def by (auto simp del: set_rev set_upt)
qed

lemma renderStack_opacity:
  "draw_opacity (renderStack cfg win app remaining stackSize i)
     = stackOpacity (maxStackCards cfg) remaining stackSize (int i)"
  by (simp add: renderStack_def Let_def)

lemma renderStackCard_opacity:
  "renderStackCard cfg w h app i stackSize remaining = Some d \<Longrightarrow>
   draw_opacity d = stackOpacity (maxStackCards cfg) remaining stackSize (int i)"
  by (auto simp: renderStackCard_def Let_def split: option.splits)

lemma getCard_parallel:
  "parallel st \<Longrightarrow> i < length (textures st) \<Longrightarrow> \<exists>c. getCard st i = Some c"
  by (simp add: getCard_def parallel_def)

lemma renderStackCard_parallel:
  "parallel (m_cardStack app) \<Longrightarrow> i < length (textures (m_cardStack app)) \<Longrightarrow>
   \<exists>d. renderStackCard cfg w h app i stackSize remaining = Some d"
  by (auto simp: renderStackCard_def Let_def dest: getCard_parallel)

text \<open>
  C8. Whenever the remaining count is at most \<^verbatim>\<open>maxStackCards\<close>, every stack entry that a
  frame draws (index \<open>i\<close> below \<open>stackSize\<close> and below the number of loaded textures) is
  drawn at opacity 0 when its position \<open>stackSize - i\<close> is at least \<open>remaining - 1\<close>, and
  at opacity 1 otherwise. With two cards remaining and \<^verbatim>\<open>maxStackCards = 5\<close> the frame draws
  one stack card, at opacity 0. Both variants; in the modular one the stack's arrays are
  parallel.
\<close>

theorem phantom_card_suppression:
  fixes cfg :: config and cfgm :: config_modular
  shows
    "(getRemainingCards (stateManager app) \<le> maxStackCards cfg \<and> i < length (nextTextures app)
        \<and> int i < min (maxStackCards cfg) (getRemainingCards (stateManager app) - 1) \<longrightarrow>
      (let remaining = getRemainingCards (stateManager app);
           stackSize = min (maxStackCards cfg) (remaining - 1);
           d = renderStack cfg win app remaining stackSize i
       in d \<in> set (renderStackCards cfg win app)
          \<and> draw_opacity d = (if stackSize - int i \<ge> remaining - 1 then 0 else 1)))
   \<and> (getRemainingCards (m_stateManager appm) \<le> maxStackCards cfgm
        \<and> parallel (m_cardStack appm) \<and> i < length (textures (m_cardStack appm))
        \<and> int i < min (maxStackCards cfgm) (getRemainingCards (m_stateManager appm) - 1) \<longrightarrow>
      (let remaining = getRemainingCards (m_stateManager appm);
           stackSize = min (maxStackCards cfgm) (remaining - 1)
       in \<exists>d. renderStackCard cfgm w h appm i stackSize remaining = Some d
            \<and> Some d \<in> set (renderStackCards_modular cfgm w h appm)
            \<and> draw_opacity d = (if stackSize - int i \<ge> remaining - 1 then 0 else 1)))
   \<and> (getRemainingCards (stateManager app) = 2 \<and> maxStackCards cfg = 5
        \<and> nextTextures app \<noteq> [] \<longrightarrow>
        renderStackCards cfg win app = [renderStack cfg win app 2 1 0]
        \<and> draw_opacity (renderStack cfg win app 2 1 0) = 0)
   \<and> (getRemainingCards (m_stateManager appm) = 2 \<and> maxStackCards cfgm = 5
        \<and> parallel (m_cardStack appm) \<and> textures (m_cardStack appm) \<noteq> [] \<longrightarrow>
        (\<exists>d. renderStackCards_modular cfgm w h appm = [Some d] \<and> draw_opacity d = 0))"
proof (intro conjI impI)
  assume a: "getRemainingCards (stateManager app) \<le> maxStackCards cfg
    \<and> i < length (nextTextures app)
    \<and> int i < min (maxStackCards cfg) (getRemainingCards (stateManager app) - 1)"
  then show "let remaining = getRemainingCards (stateManager app);
           stackSize = min (maxStackCards cfg) (remaining - 1);
           d = renderStack cfg win app remaining stackSize i
       in d \<in> set (renderStackCards cfg win app)
          \<and> draw_opacity d = (if stackSize - int i \<ge> remaining - 1 then 0 else 1)"
    using renderStack_in_render [of i app cfg win]
    by (simp add: Let_def renderStack_opacity stackOpacity_def)
next
  assume a: "getRemainingCards (m_stateManager appm) \<le> maxStackCards cfgm
        \<and> parallel (m_cardStack appm) \<and> i < length (textures (m_cardStack appm))
        \<and> int i < min (maxStackCards cfgm) (getRemainingCards (m_stateManager appm) - 1)"
  let ?r = "getRemainingCards (m_stateManager appm)"
  let ?s = "min (maxStackCards cfgm) (?r - 1)"
  from a obtain d where d: "renderStackCard cfgm w h appm i ?s ?r = Some d"
    using renderStackCard_parallel by blast
  have "Some d \<in> set (renderStackCards_modular cfgm w h appm)"
    using renderStackCard_in_render [of i appm cfgm w h] a d by simp
  moreover have "draw_opacity d = (if ?s - int i \<ge> ?r - 1 then 0 else 1)"
    using renderStackCard_opacity [OF d] a by (simp add: stackOpacity_def Let_def)
  ultimately show "let remaining = getRemainingCards (m_stateManager appm);
           stackSize = min (maxStackCards cfgm) (remaining - 1)
       in \<exists>d. renderStackCard cfgm w h appm i stackSize remaining = Some d
            \<and> Some d \<in> set (renderStackCards_modular cfgm w h appm)
            \<and> draw_opacity d = (if stackSize - int i \<ge> remaining - 1 then 0 else 1)"
    using d by (simp add: Let_def)
next
  assume a: "getRemainingCards (stateManager app) = 2 \<and> maxStackCards cfg = 5
        \<and> nextTextures app \<noteq> []"
  then show "renderStackCards cfg win app = [renderStack cfg win app 2 1 0]"
    by (simp add: renderStackCards_def Let_def)
  show "draw_opacity (renderStack cfg win app 2 1 0) = 0"
    using a by (simp add: renderStack_opacity stackOpacity_def)
next
  assume a: "getRemainingCards (m_stateManager appm) = 2 \<and> maxStackCards cfgm = 5
        \<and> parallel (m_cardStack appm) \<and> textures (m_cardStack appm) \<noteq> []"
  then have "\<exists>d. renderStackCard cfgm w h appm 0 1 2 = Some d"
    by (intro renderStackCard_parallel) auto
  then obtain d where d: "renderStackCard cfgm w h appm 0 1 2 = Some d" ..
  have "renderStackCards_modular cfgm w h appm = [Some d]"
    using a d by (simp add: renderStackCards_modular_def Let_def)
  moreover have "draw_opacity d = 0"
    using renderStackCard_opacity [OF d] a by (simp add: stackOpacity_def)
  ultimately show "\<exists>d. renderStackCards_modular cfgm w h appm = [Some d] \<and> draw_opacity d = 0"
    by blast
qed

theorem phantom_card_suppression_witness:
  "getRemainingCards (stateManager (example_app_loaded
      \<lparr> stateManager := example_manager \<lparr> currentCardIndex := 1 \<rparr> \<rparr>)) = 2
   \<and> maxStackCards CONFIG = 5
   \<and> nextTextures example_app_loaded \<noteq> []
   \<and> map draw_opacity (renderStackCards CONFIG example_window (example_app_loaded
        \<lparr> stateManager := example_manager \<lparr> currentCardIndex := 1 \<rparr> \<rparr>)) = [0]
   \<and> getRemainingCards (stateManager example_app_loaded) \<le> maxStackCards CONFIG
   \<and> map draw_opacity (renderStackCards CONFIG example_window example_app_loaded) = [1, 0]
   \<and> parallel example_stack
   \<and> map (map_option draw_opacity) (renderStackCards_modular CONFIG_modular 1920 1080
        (example_app_modular \<lparr> m_stateManager := example_manager \<lparr> currentCardIndex := 1 \<rparr> \<rparr>))
       = [Some 0]"
proof -
  let ?a = "example_app_loaded \<lparr> stateManager := example_manager \<lparr> currentCardIndex := 1 \<rparr> \<rparr>"
  let ?m = "example_app_modular \<lparr> m_stateManager := example_manager \<lparr> currentCardIndex := 1 \<rparr> \<rparr>"
  have h: "getRemainingCards (stateManager ?a) = 2" "maxStackCards CONFIG = 5"
    "nextTextures ?a \<noteq> []" "getRemainingCards (m_stateManager ?m) = 2"
    "maxStackCards CONFIG_modular = 5" "parallel (m_cardStack ?m)"
    "textures (m_cardStack ?m) \<noteq> []"
    "getRemainingCards (stateManager example_app_loaded) = 3"
    by (simp_all add: example_app_loaded_def example_app_def example_manager_def
        getRemainingCards_def CONFIG_def CONFIG_modular_def example_app_modular_def
        example_stack_def parallel_def)
  note t = phantom_card_suppression [where app = ?a and cfg = CONFIG and win = example_window
      and appm = ?m and cfgm = CONFIG_modular and w = 1920 and h = 1080]
  from t h have 1: "map draw_opacity (renderStackCards CONFIG example_window ?a) = [0]"
    by simp
  from t h obtain d where "renderStackCards_modular CONFIG_modular 1920 1080 ?m = [Some d]"
    "draw_opacity d = 0" by blast
  then have 2: "map (map_option draw_opacity)
      (renderStackCards_modular CONFIG_modular 1920 1080 ?m) = [Some 0]" by simp
  have 3: "map draw_opacity (renderStackCards CONFIG example_window example_app_loaded) = [1, 0]"
    by (simp add: renderStackCards_def CONFIG_def renderStack_opacity stackOpacity_def
        example_app_loaded_def example_app_def example_manager_def getRemainingCards_def
        Let_def numeral_2_eq_2)
  from h 1 2 3 show ?thesis
    by (simp add: example_app_loaded_def example_app_modular_def example_stack_def parallel_def)
qed

section \<open>Cookies: what is stored is what is read\<close>

lemma split_on_no_sep: "c \<notin> set s \<Longrightarrow> split_on c s = [s]"
  by (induction s) auto

lemma split_on_append: "c \<notin> set a \<Longrightarrow> split_on c (a @ c # rest) = a # split_on c rest"
  by (induction a) auto

lemma split_on_join:
  assumes "\<forall>p \<in> set (p # ps). CHR '';'' \<notin> set p"
  shows "split_on (CHR '';'') (join ''; '' (p # ps)) = p # map (\<lambda>q. CHR '' '' # q) ps"
  using assms
proof (induction ps arbitrary: p)
  case Nil
  then show ?case by (simp add: split_on_no_sep)
next
  case (Cons q qs)
  have "join ''; '' (p # q # qs) = p @ CHR '';'' # (CHR '' '' # join ''; '' (q # qs))" by simp
  moreover have "CHR '';'' \<notin> set p" using Cons.prems by simp
  ultimately have "split_on (CHR '';'') (join ''; '' (p # q # qs))
      = p # split_on (CHR '';'') (CHR '' '' # join ''; '' (q # qs))"
    using split_on_append [of "CHR '';''" p] by simp
  also have "split_on (CHR '';'') (CHR '' '' # join ''; '' (q # qs))
      = (CHR '' '' # q) # map (\<lambda>q. CHR '' '' # q) qs"
    using Cons.IH [of q] Cons.prems by simp
  finally show ?case by simp
qed

lemma getCookie_loop_spaces:
  "getCookie_loop nameEQ (map (\<lambda>q. CHR '' '' # q) ps) = getCookie_loop nameEQ ps"
  by (induction ps) (simp_all add: Let_def)

lemma prefix_name_eq:
  assumes "CHR ''='' \<notin> set n" and "CHR ''='' \<notin> set name"
    and "take (Suc (length name)) (n @ CHR ''='' # v) = name @ [CHR ''='']"
  shows "n = name"
  using assms
proof (induction name arbitrary: n)
  case Nil
  then show ?case by (cases n) auto
next
  case (Cons a name)
  then show ?case by (cases n) auto
qed

lemma getCookie_loop_piece:
  assumes "cookie_name_ok n" and "cookie_name_ok name"
  shows "getCookie_loop (name @ ''='') ((n @ ''='' @ v) # ca)
       = (if n = name then Some v else getCookie_loop (name @ ''='') ca)"
proof -
  from assms(1) have "hd n \<noteq> CHR '' ''" "n \<noteq> []" by (auto simp: cookie_name_ok_def is_blank_def)
  then have d: "dropWhile (\<lambda>ch. ch = CHR '' '') (n @ CHR ''='' # v) = n @ CHR ''='' # v"
    by (cases n) auto
  show ?thesis
  proof (cases "n = name")
    case True
    from d show ?thesis unfolding True by (simp add: Let_def)
  next
    case False
    have "take (Suc (length name)) (n @ CHR ''='' # v) \<noteq> name @ [CHR ''='']"
      using prefix_name_eq [of n name v] assms False by (auto simp: cookie_name_ok_def)
    then show ?thesis using d False by (simp add: Let_def)
  qed
qed

lemma getCookie_pieces:
  assumes "wf_jar jar" and "cookie_name_ok name"
  shows "getCookie name (b \<lparr> cookies := jar \<rparr>)
       = getCookie_loop (name @ ''='') (map (\<lambda>(n, v). n @ ''='' @ v) jar)"
proof (cases jar)
  case Nil
  then show ?thesis by (simp add: getCookie_def document_cookie_get_def Let_def)
next
  case (Cons p ps)
  have "\<forall>q \<in> set (map (\<lambda>(n, v). n @ ''='' @ v) jar). CHR '';'' \<notin> set q"
    using assms(1) by (auto simp: wf_jar_def cookie_name_ok_def)
  then have "split_on (CHR '';'') (join ''; '' (map (\<lambda>(n, v). n @ ''='' @ v) jar))
     = (\<lambda>(n, v). n @ ''='' @ v) p # map (\<lambda>q. CHR '' '' # q) (map (\<lambda>(n, v). n @ ''='' @ v) ps)"
    unfolding Cons list.map by (rule split_on_join)
  moreover have "getCookie_loop (name @ ''='')
       ((\<lambda>(n, v). n @ ''='' @ v) p # map (\<lambda>q. CHR '' '' # q) (map (\<lambda>(n, v). n @ ''='' @ v) ps))
     = getCookie_loop (name @ ''='') ((\<lambda>(n, v). n @ ''='' @ v) p # map (\<lambda>(n, v). n @ ''='' @ v) ps)"
    using getCookie_loop_spaces [of "name @ ''=''" "map (\<lambda>(n, v). n @ ''='' @ v) ps"]
    by (simp add: Let_def)
  ultimately show ?thesis
    by (simp add: getCookie_def document_cookie_get_def Let_def Cons)
qed

lemma getCookie_loop_store:
  assumes "wf_jar jar" and "cookie_name_ok name"
  shows "getCookie_loop (name @ ''='') (map (\<lambda>(n, v). n @ ''='' @ v) (store_cookie name v jar)) = Some v"
  using assms(1)
proof (induction jar)
  case Nil
  then show ?case using getCookie_loop_piece [OF assms(2) assms(2), of v "[]"] by simp
next
  case (Cons p jar)
  obtain n' v' where p: "p = (n', v')" by (cases p)
  from Cons.prems p have ok: "cookie_name_ok n'" and wf: "wf_jar jar"
    by (auto simp: wf_jar_def)
  show ?case
  proof (cases "n' = name")
    case True
    then show ?thesis
      using getCookie_loop_piece [OF assms(2) assms(2), of v] p by simp
  next
    case False
    then show ?thesis
      using getCookie_loop_piece [OF ok assms(2), of v'] Cons.IH [OF wf] p by simp
  qed
qed

lemma wf_jar_store:
  "wf_jar jar \<Longrightarrow> cookie_name_ok name \<Longrightarrow> CHR '';'' \<notin> set v \<Longrightarrow> wf_jar (store_cookie name v jar)"
  by (induction jar) (auto simp: wf_jar_def split: if_splits)

lemma getCookie_store:
  assumes "wf_jar jar" and "cookie_name_ok name" and "CHR '';'' \<notin> set v"
  shows "getCookie name (b \<lparr> cookies := store_cookie name v jar \<rparr>) = Some v"
  using getCookie_pieces [OF wf_jar_store [OF assms] assms(2)] getCookie_loop_store [OF assms(1,2)]
  by simp


lemma trim_id: "s = [] \<or> \<not> is_blank (hd s) \<and> \<not> is_blank (last s) \<Longrightarrow> trim s = s"
proof (cases s)
  case Nil
  then show ?thesis by (simp add: trim_def)
next
  case (Cons a as)
  assume "s = [] \<or> \<not> is_blank (hd s) \<and> \<not> is_blank (last s)"
  with Cons have h: "\<not> is_blank (hd s)" and l: "\<not> is_blank (last s)" and ne: "s \<noteq> []" by auto
  from h ne have 1: "dropWhile is_blank s = s" by (cases s) auto
  from l ne have "\<not> is_blank (hd (rev s))" by (simp add: hd_rev)
  with ne have 2: "dropWhile is_blank (rev s) = rev s" by (cases "rev s") auto
  show ?thesis by (simp add: trim_def 1 2)
qed

lemma document_cookie_set_pair:
  assumes "cookie_name_ok name" and "cookie_value_ok v"
  shows "document_cookie_set (name @ ''='' @ v @ '';expires='' @ e @ '';path=/'') jar
       = store_cookie name v jar"
proof -
  let ?str = "name @ ''='' @ v @ '';expires='' @ e @ '';path=/''"
  have nosemi: "\<forall>c \<in> set (name @ ''='' @ v). c \<noteq> CHR '';''"
    using assms by (auto simp: cookie_name_ok_def cookie_value_ok_def)
  have "?str = (name @ ''='' @ v) @ CHR '';'' # (''expires='' @ e @ '';path=/'')" by simp
  then have pair: "takeWhile (\<lambda>c. c \<noteq> CHR '';'') ?str = name @ ''='' @ v"
    using nosemi by (simp only: takeWhile_tail [of "\<lambda>c. c \<noteq> CHR '';''"] takeWhile_eq_all_conv [THEN iffD2] not_not)
  have noeq: "\<forall>c \<in> set name. c \<noteq> CHR ''=''"
    using assms(1) by (auto simp: cookie_name_ok_def)
  have n: "takeWhile (\<lambda>c. c \<noteq> CHR ''='') (name @ CHR ''='' # v) = name"
    using noeq by (simp add: takeWhile_tail)
  have d: "dropWhile (\<lambda>c. c \<noteq> CHR ''='') (name @ CHR ''='' # v) = CHR ''='' # v"
    using noeq by (simp add: dropWhile_append3)
  have tn: "trim name = name"
    using assms(1) by (intro trim_id) (simp add: cookie_name_ok_def)
  have tv: "trim v = v"
    using assms(2) by (intro trim_id) (simp add: cookie_value_ok_def)
  show ?thesis
    unfolding document_cookie_set_def pair Let_def by (simp add: n d tn tv)
qed

lemma getCookie_setCookie:
  assumes "wf_jar (cookies b)" and "cookie_name_ok name" and "cookie_value_ok v"
  shows "getCookie name (setCookie name v days b) = Some v"
proof -
  have "setCookie name v days b = b \<lparr> cookies := store_cookie name v (cookies b) \<rparr>"
    by (simp only: setCookie_def document_cookie_set_pair [OF assms(2,3)])
  moreover have "CHR '';'' \<notin> set v" using assms(3) by (simp add: cookie_value_ok_def)
  ultimately show ?thesis using getCookie_store [OF assms(1,2)] by simp
qed

section \<open>JSON: the snapshot text parses back\<close>

lemma of_char_digit_char: "d < 10 \<Longrightarrow> (of_char (digit_char d) :: nat) = 48 + d"
  by (simp add: digit_char_def)

lemma is_digit_digit_char: "d < 10 \<Longrightarrow> is_digit (digit_char d)"
  by (simp add: is_digit_def of_char_digit_char)

lemma string_of_nat_digits: "\<forall>c \<in> set (string_of_nat n). is_digit c"
proof (induction n rule: string_of_nat.induct)
  case (1 n)
  show ?case
  proof (cases "n < 10")
    case True
    then show ?thesis by (subst string_of_nat.simps) (simp add: is_digit_digit_char)
  next
    case False
    then show ?thesis
      using 1 by (subst string_of_nat.simps) (simp add: is_digit_digit_char)
  qed
qed

lemma string_of_nat_nonempty: "string_of_nat n \<noteq> []"
  by (subst string_of_nat.simps) simp

lemma nat_of_digits_snoc:
  "nat_of_digits (ds @ [c]) = 10 * nat_of_digits ds + (of_char c - 48)"
  by (simp add: nat_of_digits_def)

lemma nat_of_digits_string_of_nat: "nat_of_digits (string_of_nat n) = n"
proof (induction n rule: string_of_nat.induct)
  case (1 n)
  show ?case
  proof (cases "n < 10")
    case True
    then show ?thesis
      by (subst string_of_nat.simps) (simp add: nat_of_digits_def of_char_digit_char)
  next
    case False
    then have "nat_of_digits (string_of_nat n)
        = 10 * nat_of_digits (string_of_nat (n div 10)) + (of_char (digit_char (n mod 10)) - 48)"
      by (subst string_of_nat.simps) (simp add: nat_of_digits_snoc)
    then show ?thesis using 1 False by (simp add: of_char_digit_char)
  qed
qed

lemma hd_string_of_nat: "0 < n \<Longrightarrow> hd (string_of_nat n) \<noteq> CHR ''0''"
proof (induction n rule: string_of_nat.induct)
  case (1 n)
  show ?case
  proof (cases "n < 10")
    case True
    have "digit_char n \<noteq> CHR ''0''"
    proof
      assume "digit_char n = CHR ''0''"
      then have "(of_char (digit_char n) :: nat) = of_char (CHR ''0'')" by simp
      with True "1.prems" show False by (simp add: of_char_digit_char)
    qed
    with True show ?thesis by (subst string_of_nat.simps) simp
  next
    case False
    then have "0 < n div 10" by simp
    with 1 False have "hd (string_of_nat (n div 10)) \<noteq> CHR ''0''" by simp
    with False show ?thesis
      by (subst string_of_nat.simps) (simp add: string_of_nat_nonempty)
  qed
qed

lemma string_of_nat_zero: "string_of_nat 0 = ''0''"
  by (subst string_of_nat.simps) (simp add: digit_char_def char_of_eq_iff)

lemma no_leading_zero: "\<not> (hd (string_of_nat n) = CHR ''0'' \<and> length (string_of_nat n) > 1)"
  by (cases "n = 0") (auto simp: string_of_nat_zero hd_string_of_nat)

lemma takeWhile_digits:
  "ends_number rest \<Longrightarrow> takeWhile is_digit (string_of_nat n @ rest) = string_of_nat n"
  using string_of_nat_digits [of n]
  by (cases rest) (auto simp: ends_number_def takeWhile_append2 takeWhile_eq_all_conv)

lemma dropWhile_digits:
  "ends_number rest \<Longrightarrow> dropWhile is_digit (string_of_nat n @ rest) = rest"
  using string_of_nat_digits [of n]
  by (cases rest) (auto simp: ends_number_def dropWhile_append2)

lemma digit_not_minus: "is_digit c \<Longrightarrow> c \<noteq> CHR ''-''"
  by (auto simp: is_digit_def)

lemma hd_string_of_nat_digit: "is_digit (hd (string_of_nat n))"
  using string_of_nat_digits [of n] string_of_nat_nonempty [of n] by (cases "string_of_nat n") auto

lemma parse_number_nat:
  assumes "ends_number rest" and "n \<le> 2 ^ 53"
  shows "parse_number (string_of_nat n @ rest) = Value (JNum (int n), rest)"
proof -
  obtain c cs where s: "string_of_nat n = c # cs"
    using string_of_nat_nonempty [of n] by (cases "string_of_nat n") auto
  have c: "c \<noteq> CHR ''-''" using hd_string_of_nat_digit [of n] s by (auto dest: digit_not_minus)
  have e: "\<not> (case rest of [] \<Rightarrow> False | c # _ \<Rightarrow> c = CHR ''.'' \<or> c = CHR ''e'' \<or> c = CHR ''E'')"
    using assms(1) by (auto simp: ends_number_def split: list.splits)
  have neg: "(case string_of_nat n @ rest of [] \<Rightarrow> False | c # _ \<Rightarrow> c = CHR ''-'') = False"
    using s c by simp
  show ?thesis
    unfolding parse_number_def neg Let_def
    using no_leading_zero [of n] e assms(2)
    by (simp add: takeWhile_digits [OF assms(1)] dropWhile_digits [OF assms(1)]
        string_of_nat_nonempty nat_of_digits_string_of_nat)
qed

lemma parse_number_neg:
  assumes "ends_number rest" and "n \<le> 2 ^ 53"
  shows "parse_number (CHR ''-'' # string_of_nat n @ rest) = Value (JNum (- int n), rest)"
proof -
  have e: "\<not> (case rest of [] \<Rightarrow> False | c # _ \<Rightarrow> c = CHR ''.'' \<or> c = CHR ''e'' \<or> c = CHR ''E'')"
    using assms(1) by (auto simp: ends_number_def split: list.splits)
  show ?thesis
    unfolding parse_number_def Let_def
    using no_leading_zero [of n] e assms(2)
    by (simp add: takeWhile_digits [OF assms(1)] dropWhile_digits [OF assms(1)]
        string_of_nat_nonempty nat_of_digits_string_of_nat)
qed

lemma parse_number_int:
  assumes "ends_number rest" and "safe_int i"
  shows "parse_number (string_of_int i @ rest) = Value (JNum i, rest)"
proof (cases "i < 0")
  case True
  with assms(2) have "nat (- i) \<le> 2 ^ 53" by (simp add: safe_int_def nat_le_iff)
  from parse_number_neg [OF assms(1) this] True show ?thesis
    by (simp add: string_of_int_def)
next
  case False
  with assms(2) have "nat i \<le> 2 ^ 53" by (simp add: safe_int_def nat_le_iff)
  from parse_number_nat [OF assms(1) this] False show ?thesis
    by (simp add: string_of_int_def)
qed


lemma string_of_int_first:
  "\<exists>c cs. string_of_int i = c # cs \<and> (c = CHR ''-'' \<or> is_digit c)"
proof (cases "i < 0")
  case True
  then show ?thesis by (simp add: string_of_int_def)
next
  case False
  obtain c cs where "string_of_nat (nat i) = c # cs"
    using string_of_nat_nonempty [of "nat i"] by (cases "string_of_nat (nat i)") auto
  moreover from this have "is_digit c" using hd_string_of_nat_digit [of "nat i"] by simp
  ultimately show ?thesis using False by (simp add: string_of_int_def)
qed

lemma number_start:
  assumes "c = CHR ''-'' \<or> is_digit c"
  shows "\<not> is_ws c" "c \<noteq> CHR ''{''" "c \<noteq> CHR ''[''" "c \<noteq> CHR '']''" "c \<noteq> CHR 0x22"
    "c \<noteq> CHR ''t''" "c \<noteq> CHR ''f''" "c \<noteq> CHR ''n''"
  using assms by (auto simp: is_digit_def is_ws_def)

lemma parse_value_number:
  assumes "ends_number rest" and "safe_int i"
  shows "parse_value (Suc f) (string_of_int i @ rest) = Value (JNum i, rest)"
proof -
  obtain c cs where s: "string_of_int i = c # cs" and c: "c = CHR ''-'' \<or> is_digit c"
    using string_of_int_first by blast
  have "parse_value (Suc f) ((c # cs) @ rest) = parse_number ((c # cs) @ rest)"
    using number_start [OF c] by (simp add: skip_ws_def)
  then show ?thesis using parse_number_int [OF assms] by (simp add: s)
qed

lemma ends_number_delims:
  "ends_number (CHR '','' # r)" "ends_number (CHR '']'' # r)" "ends_number (CHR ''}'' # r)"
  by (simp_all add: ends_number_def is_digit_def)

lemma parse_elements_ints:
  assumes "\<forall>x \<in> set xs. safe_int x" and "xs \<noteq> []" and "length xs < F"
  shows "parse_elements F (join '','' (map string_of_int xs) @ CHR '']'' # rest) acc
       = Value (JArr (acc @ map JNum xs), rest)"
  using assms
proof (induction xs arbitrary: F acc)
  case Nil
  then show ?case by simp
next
  case (Cons x xs)
  from Cons.prems(3) obtain f where F: "F = Suc (Suc f)" and f: "length xs \<le> f"
    by (cases F; cases "F - 1") auto
  from Cons.prems(1) have sx: "safe_int x" by simp
  show ?case
  proof (cases xs)
    case Nil
    have "parse_value (Suc f) (string_of_int x @ CHR '']'' # rest) = Value (JNum x, CHR '']'' # rest)"
      by (rule parse_value_number [OF ends_number_delims(2) sx])
    then show ?thesis by (simp add: F Nil skip_ws_def is_ws_def)
  next
    case (Cons y ys)
    have "parse_value (Suc f)
            (string_of_int x @ CHR '','' # (join '','' (map string_of_int xs) @ CHR '']'' # rest))
          = Value (JNum x, CHR '','' # (join '','' (map string_of_int xs) @ CHR '']'' # rest))"
      by (rule parse_value_number [OF ends_number_delims(1) sx])
    moreover have "parse_elements (Suc f) (join '','' (map string_of_int xs) @ CHR '']'' # rest)
            (acc @ [JNum x]) = Value (JArr ((acc @ [JNum x]) @ map JNum xs), rest)"
      using Cons.prems(1) f Cons by (intro Cons.IH) auto
    ultimately show ?thesis by (simp add: F Cons skip_ws_def is_ws_def)
  qed
qed

lemma join_first:
  "xs \<noteq> [] \<Longrightarrow> \<exists>c cs. join '','' (map string_of_int xs) = c # cs \<and> (c = CHR ''-'' \<or> is_digit c)"
proof (cases xs)
  case Nil
  assume "xs \<noteq> []"
  with Nil show ?thesis by simp
next
  case (Cons x ys)
  obtain c cs where "string_of_int x = c # cs" "c = CHR ''-'' \<or> is_digit c"
    using string_of_int_first by blast
  then show ?thesis using Cons by (cases ys) auto
qed

lemma parse_value_array:
  assumes "\<forall>x \<in> set xs. safe_int x" and "length xs < F"
  shows "parse_value (Suc F) (CHR ''['' # join '','' (map string_of_int xs) @ CHR '']'' # rest)
       = Value (JArr (map JNum xs), rest)"
proof (cases "xs = []")
  case True
  then show ?thesis by (simp add: skip_ws_def is_ws_def)
next
  case False
  obtain c cs where j: "join '','' (map string_of_int xs) = c # cs"
    and c: "c = CHR ''-'' \<or> is_digit c"
    using join_first [OF False] by blast
  have "parse_value (Suc F) (CHR ''['' # (c # cs) @ CHR '']'' # rest)
      = parse_elements F ((c # cs) @ CHR '']'' # rest) []"
    using number_start [OF c] by (simp add: skip_ws_def is_ws_def)
  then show ?thesis
    using parse_elements_ints [OF assms(1) False assms(2), of rest "[]"] by (simp add: j)
qed


lemma stringify_state:
  "JSON_stringify (state_json xs c)
     = ''{\"indices\":['' @ join '','' (map string_of_int xs) @ ''],\"current\":'' @ string_of_int c @ ''}''"
  by (simp add: state_json_def JSON_quote_def JSON_escape_def comp_def)

lemma parse_object_open:
  "parse_value (Suc f) (CHR ''{'' # CHR 0x22 # r) = parse_members f (CHR 0x22 # r) []"
  by (simp add: skip_ws_def is_ws_def)

lemma parse_member_indices:
  "parse_members (Suc f) (''\"indices\":'' @ t) acc =
     (case parse_value f t of
        Value (v, r3) \<Rightarrow>
          (case skip_ws r3 of
             [] \<Rightarrow> SyntaxError
           | c' # r4 \<Rightarrow>
               if c' = CHR '','' then parse_members f r4 (acc @ [(''indices'', v)])
               else if c' = CHR ''}'' then Value (JObj (acc @ [(''indices'', v)]), r4)
               else SyntaxError)
      | SyntaxError \<Rightarrow> SyntaxError
      | Unsupported \<Rightarrow> Unsupported)"
  by (simp add: skip_ws_def is_ws_def del: parse_value.simps)

lemma parse_member_current:
  "parse_members (Suc f) (''\"current\":'' @ t) acc =
     (case parse_value f t of
        Value (v, r3) \<Rightarrow>
          (case skip_ws r3 of
             [] \<Rightarrow> SyntaxError
           | c' # r4 \<Rightarrow>
               if c' = CHR '','' then parse_members f r4 (acc @ [(''current'', v)])
               else if c' = CHR ''}'' then Value (JObj (acc @ [(''current'', v)]), r4)
               else SyntaxError)
      | SyntaxError \<Rightarrow> SyntaxError
      | Unsupported \<Rightarrow> Unsupported)"
  by (simp add: skip_ws_def is_ws_def del: parse_value.simps)

lemma parse_value_state:
  assumes "\<forall>x \<in> set xs. safe_int x" and "safe_int c" and "length xs < F"
  shows "parse_value (Suc (Suc (Suc F))) (JSON_stringify (state_json xs c) @ rest)
       = Value (state_json xs c, rest)"
proof -
  let ?J = "join '','' (map string_of_int xs)"
  let ?tail = "''\"current\":'' @ string_of_int c @ CHR ''}'' # rest"
  have a: "parse_value (Suc F) (CHR ''['' # ?J @ CHR '']'' # CHR '','' # ?tail)
           = Value (JArr (map JNum xs), CHR '','' # ?tail)"
    using parse_value_array [OF assms(1,3)] by simp
  from assms(3) obtain F' where F': "F = Suc F'" by (cases F) auto
  have n: "parse_value F (string_of_int c @ CHR ''}'' # rest)
           = Value (JNum c, CHR ''}'' # rest)"
    unfolding F' by (rule parse_value_number [OF ends_number_delims(3) assms(2)])
  have "JSON_stringify (state_json xs c) @ rest
      = CHR ''{'' # CHR 0x22 # (''indices\":'' @ CHR ''['' # ?J @ CHR '']'' # CHR '','' # ?tail)"
    by (simp add: stringify_state)
  then have "parse_value (Suc (Suc (Suc F))) (JSON_stringify (state_json xs c) @ rest)
      = parse_members (Suc (Suc F))
          (''\"indices\":'' @ CHR ''['' # ?J @ CHR '']'' # CHR '','' # ?tail) []"
    by (simp only: parse_object_open) simp
  also have "\<dots> = parse_members (Suc F) ?tail [(''indices'', JArr (map JNum xs))]"
    by (simp only: parse_member_indices a) (simp add: skip_ws_def is_ws_def)
  also have "\<dots> = Value (JObj [(''indices'', JArr (map JNum xs)), (''current'', JNum c)], rest)"
    by (simp only: parse_member_current n) (simp add: skip_ws_def is_ws_def)
  finally show ?thesis by (simp add: state_json_def)
qed

lemma length_join_ge: "length xs \<le> Suc (length (join '','' (map string_of_int xs)))"
proof (induction xs)
  case Nil
  then show ?case by simp
next
  case (Cons x xs)
  then show ?case by (cases xs) auto
qed

lemma JSON_parse_state:
  assumes "\<forall>x \<in> set xs. safe_int x" and "safe_int c"
  shows "JSON_parse (JSON_stringify (state_json xs c)) = Value (state_json xs c)"
proof -
  let ?s = "JSON_stringify (state_json xs c)"
  define F where "F = length ?s - 2"
  have "length xs + 3 \<le> length ?s"
    using length_join_ge [of xs] by (simp add: stringify_state)
  then have F: "Suc (length ?s) = Suc (Suc (Suc F))" and lt: "length xs < F"
    by (simp_all add: F_def)
  have "parse_value (Suc (length ?s)) (?s @ []) = Value (state_json xs c, [])"
    unfolding F by (rule parse_value_state [OF assms lt])
  then show ?thesis by (simp add: JSON_parse_def skip_ws_def)
qed

lemma those_as_int: "those (map as_int (map JNum xs)) = Some xs"
  by (induction xs) auto

lemma those_as_int_comp: "those (map (as_int \<circ> JNum) xs) = Some xs"
  by (induction xs) auto

section \<open>The shuffle\<close>

lemma random_index_le:
  assumes "Math_random g = (r, g')"
  shows "nat \<lfloor>r * real (i + 1)\<rfloor> \<le> i"
proof -
  from Math_random_bounds [OF assms] have r: "0 \<le> r" "r < 1" by simp_all
  then have "r * real (i + 1) < real (i + 1)" by simp
  then have "\<lfloor>r * real (i + 1)\<rfloor> < int (i + 1)" by (simp add: floor_less_iff)
  then show ?thesis by simp
qed

lemma fisherYates_loop_mset:
  "k < length array \<Longrightarrow> mset (fst (fisherYates_loop k array g)) = mset array"
proof (induction k arbitrary: array g)
  case 0
  then show ?case by simp
next
  case (Suc k)
  obtain r g' where m: "Math_random g = (r, g')" by (cases "Math_random g")
  let ?j = "nat \<lfloor>r * real (Suc k + 1)\<rfloor>"
  let ?a = "array [Suc k := array ! ?j, ?j := array ! Suc k]"
  from random_index_le [OF m, of "Suc k"] Suc.prems have j: "?j < length array" by simp
  have "mset ?a = mset array"
    using mset_swap [of ?j array "Suc k"] j Suc.prems by simp
  moreover have "mset (fst (fisherYates_loop k ?a g')) = mset ?a"
    using Suc.prems by (intro Suc.IH) simp
  ultimately show ?case using m by (simp add: Let_def)
qed

lemma fisherYatesShuffle_mset: "mset (fst (fisherYatesShuffle array g)) = mset array"
proof (cases array)
  case Nil
  then show ?thesis by (simp add: fisherYatesShuffle_def)
next
  case (Cons a as)
  then show ?thesis by (simp add: fisherYatesShuffle_def fisherYates_loop_mset)
qed

lemma reset_fields:
  "reset cfg sm b = (sm', b') \<Longrightarrow>
     shuffledIndices sm' = fst (fisherYatesShuffle (map int [0 ..< totalCards sm]) (random b))
     \<and> currentCardIndex sm' = 0 \<and> totalCards sm' = totalCards sm
     \<and> b' = save cfg sm' (b \<lparr> random := snd (fisherYatesShuffle (map int [0 ..< totalCards sm]) (random b)) \<rparr>)"
  by (auto simp: reset_def Let_def split: prod.splits)

lemma reset_mset:
  "reset cfg sm b = (sm', b') \<Longrightarrow> mset (shuffledIndices sm') = mset (map int [0 ..< totalCards sm])"
  by (simp add: reset_fields fisherYatesShuffle_mset)

lemma perm_of_upt:
  assumes "mset xs = mset (map int [0 ..< n])"
  shows "length xs = n" "distinct xs" "set xs = {0 ..< int n}"
proof -
  from assms have "size (mset xs) = size (mset (map int [0 ..< n]))" by simp
  then show "length xs = n" by simp
  have "distinct (map int [0 ..< n])" by (simp add: distinct_map)
  then show "distinct xs" using assms by (metis mset_eq_imp_distinct_iff)
  have "set xs = set (map int [0 ..< n])" using assms by (metis mset_eq_setD)
  also have "\<dots> = {0 ..< int n}"
    by (auto simp: image_iff) (metis atLeastLessThan_iff nat_less_iff zero_le nat_0_le)
  finally show "set xs = {0 ..< int n}" .
qed

text \<open>
  C1. For every deck size (in particular every \<open>N > 0\<close>) and every sequence of draws of the
  random source, \<^verbatim>\<open>reset()\<close> leaves in \<^verbatim>\<open>shuffledIndices\<close> a permutation of \<open>[0, N)\<close>: the same
  multiset as \<open>0, \<dots>, N - 1\<close>, so its length is \<open>N\<close>, no entry is repeated and no index is
  left out; and it sets \<^verbatim>\<open>currentCardIndex\<close> to 0.
\<close>

theorem reset_permutation:
  "(case reset cfg sm b of
      (sm', b') \<Rightarrow>
        mset (shuffledIndices sm') = mset (map int [0 ..< totalCards sm])
        \<and> length (shuffledIndices sm') = totalCards sm
        \<and> distinct (shuffledIndices sm')
        \<and> set (shuffledIndices sm') = {0 ..< int (totalCards sm)}
        \<and> currentCardIndex sm' = 0
        \<and> totalCards sm' = totalCards sm)"
proof -
  obtain sm' b' where r: "reset cfg sm b = (sm', b')" by (cases "reset cfg sm b")
  note m = reset_mset [OF r]
  from perm_of_upt [OF m] m reset_fields [OF r] show ?thesis by (simp add: r)
qed

lemma example_random:
  "random example_browser = rng_zero" "random (example_browser_with text) = rng_zero"
  by (simp_all add: example_browser_def example_browser_with_def)

lemma reset_example:
  "reset CONFIG (StateManager_new 3) bb =
     (\<lparr> totalCards = 3, shuffledIndices = [1, 2, 0], currentCardIndex = 0 \<rparr>,
      save CONFIG \<lparr> totalCards = 3, shuffledIndices = [1, 2, 0], currentCardIndex = 0 \<rparr> bb)"
  if "random bb = rng_zero" for bb
proof -
  from that have e: "bb \<lparr> random := rng_zero \<rparr> = bb" by (cases bb) simp
  show ?thesis
    by (simp add: reset_def StateManager_new_def fisherYatesShuffle_def Math_random_rng_zero
        numeral_3_eq_3 upt_rec Let_def that e)
qed

lemma Math_random_rng_half: "Math_random rng_half = (1 / 2, rng_half)"
  by (simp add: Math_random_def rng_half_def random_half.rep_eq)

lemma shuffle_example_half:
  "fst (fisherYatesShuffle (map int [0 ..< 5]) rng_half) = [0, 3, 1, 4, 2]"
  by (simp add: fisherYatesShuffle_def Math_random_rng_half eval_nat_numeral upt_rec)

theorem reset_permutation_witness:
  "fst (reset CONFIG (StateManager_new 3) example_browser)
     = \<lparr> totalCards = 3, shuffledIndices = [1, 2, 0], currentCardIndex = 0 \<rparr>
   \<and> distinct (shuffledIndices (fst (reset CONFIG (StateManager_new 3) example_browser)))
   \<and> set (shuffledIndices (fst (reset CONFIG (StateManager_new 3) example_browser))) = {0 ..< 3}
   \<and> shuffledIndices (fst (reset CONFIG (StateManager_new 5)
         (example_browser \<lparr> random := rng_half \<rparr>))) = [0, 3, 1, 4, 2]"
proof -
  have "shuffledIndices (fst (reset CONFIG (StateManager_new 5)
         (example_browser \<lparr> random := rng_half \<rparr>)))
      = fst (fisherYatesShuffle (map int [0 ..< 5]) rng_half)"
    by (simp add: reset_def Let_def StateManager_new_def split: prod.splits)
  then show ?thesis
    using reset_permutation [where cfg = CONFIG and sm = "StateManager_new 3"
        and b = example_browser]
      reset_example [OF example_random(1)]
    by (simp add: StateManager_new_def shuffle_example_half)
qed

section \<open>Advancing the cursor\<close>

lemma advance_true:
  "currentCardIndex sm + 1 < int (length (shuffledIndices sm)) \<Longrightarrow>
   advance cfg sm b = (True, sm \<lparr> currentCardIndex := currentCardIndex sm + 1 \<rparr>,
                       save cfg (sm \<lparr> currentCardIndex := currentCardIndex sm + 1 \<rparr>) b)"
  by (simp add: advance_def Let_def)

lemma advance_false:
  "\<not> currentCardIndex sm + 1 < int (length (shuffledIndices sm)) \<Longrightarrow>
   advance cfg sm b = (False, sm \<lparr> currentCardIndex := currentCardIndex sm + 1 \<rparr>, b)"
  by (simp add: advance_def Let_def)

lemma advance_times_results:
  "0 < n \<Longrightarrow> currentCardIndex sm + int n = int (length (shuffledIndices sm)) \<Longrightarrow>
   fst (advance_times n cfg sm b) = replicate (n - 1) True @ [False]"
proof (induction n arbitrary: sm b)
  case 0
  then show ?case by simp
next
  case (Suc n)
  show ?case
  proof (cases "n = 0")
    case True
    with Suc.prems have "\<not> currentCardIndex sm + 1 < int (length (shuffledIndices sm))" by simp
    then show ?thesis using True by (simp add: advance_false)
  next
    case False
    with Suc.prems have lt: "currentCardIndex sm + 1 < int (length (shuffledIndices sm))" by simp
    let ?sm = "sm \<lparr> currentCardIndex := currentCardIndex sm + 1 \<rparr>"
    have "fst (advance_times n cfg ?sm (save cfg ?sm b)) = replicate (n - 1) True @ [False]"
      using False Suc.prems by (intro Suc.IH) simp_all
    moreover have "replicate n True = True # replicate (n - 1) True"
      using False by (cases n) simp_all
    ultimately show ?thesis
      by (auto simp: advance_true [OF lt] split: prod.splits)
  qed
qed

section \<open>Saving and loading\<close>

lemma digit_not_semicolon: "is_digit ch \<Longrightarrow> ch \<noteq> CHR '';''"
  by (auto simp: is_digit_def)

lemma string_of_int_no_semicolon: "CHR '';'' \<notin> set (string_of_int i)"
  using string_of_nat_digits digit_not_semicolon by (auto simp: string_of_int_def)

lemma join_no_semicolon: "CHR '';'' \<notin> set (join '','' (map string_of_int xs))"
proof (induction xs)
  case Nil
  then show ?case by simp
next
  case (Cons x xs)
  then show ?case using string_of_int_no_semicolon [of x] by (cases xs) auto
qed

lemma snapshot_text_ok: "cookie_value_ok (JSON_stringify (state_json xs c))"
  using join_no_semicolon [of xs] string_of_int_no_semicolon [of c]
  by (simp add: cookie_value_ok_def stringify_state is_blank_def)

lemma getCookie_save:
  assumes "wf_jar (cookies b)" and "cookie_name_ok (cookieName cfg)"
  shows "getCookie (cookieName cfg) (save cfg sm b)
       = Some (JSON_stringify (state_json (shuffledIndices sm) (currentCardIndex sm)))"
  unfolding save_def Let_def by (rule getCookie_setCookie [OF assms snapshot_text_ok])

lemma snapshot_text_nonempty: "JSON_stringify (state_json xs c) \<noteq> []"
  by (simp add: stringify_state)

lemma load_array:
  assumes "getCookie (cookieName cfg) b = Some saved" and "saved \<noteq> []"
    and "JSON_parse saved = Value st" and "own_property st ''indices'' = Some (JArr vs)"
  shows "load cfg sm b =
    (if length vs \<noteq> totalCards sm then (case reset cfg sm b of (sm', b') \<Rightarrow> Loaded sm' b')
     else (case (those (map as_int vs), own_property st ''current'') of
             (Some xs, Some (JNum c)) \<Rightarrow> Loaded (sm \<lparr> shuffledIndices := xs, currentCardIndex := c \<rparr>) b
           | _ \<Rightarrow> Adopted_untyped (JArr vs) (own_property st ''current'')))"
proof -
  from assms(4) have "st \<noteq> JNull" by (auto simp: own_property_def)
  then show ?thesis
    using assms by (simp add: load_def Let_def length_property_def)
qed

lemma load_snapshot:
  assumes "getCookie (cookieName cfg) b = Some saved" and "saved \<noteq> []"
    and "JSON_parse saved = Value (state_json xs c)" and "length xs = totalCards sm"
  shows "load cfg sm b = Loaded (sm \<lparr> shuffledIndices := xs, currentCardIndex := c \<rparr>) b"
proof -
  have "own_property (state_json xs c) ''indices'' = Some (JArr (map JNum xs))"
    "own_property (state_json xs c) ''current'' = Some (JNum c)"
    by (simp_all add: own_property_def state_json_def)
  with load_array [OF assms(1-3), of "map JNum xs" sm] assms(4) show ?thesis
    by (simp add: those_as_int_comp)
qed

lemma load_save:
  assumes "wf_jar (cookies b)" and "cookie_name_ok (cookieName cfg)"
    and "\<forall>x \<in> set (shuffledIndices sm). safe_int x" and "safe_int (currentCardIndex sm)"
    and "length (shuffledIndices sm) = totalCards sm0"
  shows "load cfg sm0 (save cfg sm b)
       = Loaded (sm0 \<lparr> shuffledIndices := shuffledIndices sm,
                       currentCardIndex := currentCardIndex sm \<rparr>) (save cfg sm b)"
  by (rule load_snapshot [OF getCookie_save [OF assms(1,2)] snapshot_text_nonempty
        JSON_parse_state [OF assms(3,4)] assms(5)])

lemmas parse_eval = JSON_parse_def skip_ws_def is_ws_def parse_number_def is_digit_def
  nat_of_digits_def parse_literal_def

lemmas stringify_eval = stringify_state string_of_int_def string_of_nat.simps digit_char_def
  char_of_eq_iff

lemma example_wf:
  "wf_jar (cookies example_browser)" "cookie_name_ok (cookieName CONFIG)"
  by (simp_all add: wf_jar_def example_browser_def cookie_name_ok_def CONFIG_def is_blank_def)

lemma load_fallbacks1:
  "getCookie (cookieName cfg) b = None \<or> getCookie (cookieName cfg) b = Some [] \<Longrightarrow>
     load cfg sm b = (case reset cfg sm b of (sm', b') \<Rightarrow> Loaded sm' b')"
  unfolding load_def Let_def by (cases "getCookie (cookieName cfg) b") auto

lemma load_fallbacks2:
  "getCookie (cookieName cfg) b = Some saved \<Longrightarrow> JSON_parse saved = SyntaxError \<Longrightarrow>
     load cfg sm b = (case reset cfg sm b of (sm', b') \<Rightarrow> Loaded sm' b')"
  unfolding load_def Let_def by simp


lemma load_mismatch:
  "getCookie (cookieName cfg) b = Some saved \<and> saved \<noteq> []
        \<and> JSON_parse saved = Value st \<and> own_property st ''indices'' = Some (JArr vs)
        \<and> length vs \<noteq> totalCards sm \<longrightarrow>
      load cfg sm b = (case reset cfg sm b of (sm', b') \<Rightarrow> Loaded sm' b')"
proof (intro impI, elim conjE)
  assume a: "getCookie (cookieName cfg) b = Some saved" "saved \<noteq> []"
    "JSON_parse saved = Value st" "own_property st ''indices'' = Some (JArr vs)"
    and n: "length vs \<noteq> totalCards sm"
  show "load cfg sm b = (case reset cfg sm b of (sm', b') \<Rightarrow> Loaded sm' b')"
    unfolding load_array [OF a] using n by (rule if_P)
qed

lemma load_match:
  "getCookie (cookieName cfg) b = Some saved \<and> saved \<noteq> []
        \<and> JSON_parse saved = Value st \<and> own_property st ''indices'' = Some (JArr vs)
        \<and> length vs = totalCards sm \<longrightarrow>
      load cfg sm b =
        (case (those (map as_int vs), own_property st ''current'') of
           (Some xs, Some (JNum c)) \<Rightarrow>
             Loaded (sm \<lparr> shuffledIndices := xs, currentCardIndex := c \<rparr>) b
         | _ \<Rightarrow> Adopted_untyped (JArr vs) (own_property st ''current''))"
proof (intro impI, elim conjE)
  assume a: "getCookie (cookieName cfg) b = Some saved" "saved \<noteq> []"
    "JSON_parse saved = Value st" "own_property st ''indices'' = Some (JArr vs)"
    and n: "length vs = totalCards sm"
  then have "\<not> length vs \<noteq> totalCards sm" by blast
  then show "load cfg sm b =
        (case (those (map as_int vs), own_property st ''current'') of
           (Some xs, Some (JNum c)) \<Rightarrow>
             Loaded (sm \<lparr> shuffledIndices := xs, currentCardIndex := c \<rparr>) b
         | _ \<Rightarrow> Adopted_untyped (JArr vs) (own_property st ''current''))"
    unfolding load_array [OF a] by (rule if_not_P)
qed


lemma load_typed:
  "getCookie (cookieName cfg) b = Some saved \<and> saved \<noteq> []
        \<and> JSON_parse saved = Value (state_json xs c) \<and> length xs = totalCards sm \<longrightarrow>
      load cfg sm b = Loaded (sm \<lparr> shuffledIndices := xs, currentCardIndex := c \<rparr>) b"
  using load_snapshot by blast

lemma reset_fresh:
  "case reset cfg sm b of
        (sm', b') \<Rightarrow> mset (shuffledIndices sm') = mset (map int [0 ..< totalCards sm])
                      \<and> currentCardIndex sm' = 0"
proof -
  obtain sm' b' where r: "reset cfg sm b = (sm', b')" by (cases "reset cfg sm b")
  from reset_mset [OF r] reset_fields [OF r] show ?thesis by (simp add: r)
qed

lemma getCookie_example_with:
  "getCookie (cookieName CONFIG) (example_browser_with text) = Some text"
  if "cookie_value_ok text"
proof -
  have "example_browser_with text
      = setCookie (cookieName CONFIG) text 365 (example_browser_with text)"
    using that
    by (simp only: setCookie_def document_cookie_set_pair [OF example_wf(2) that])
       (simp add: example_browser_with_def CONFIG_def)
  moreover have "wf_jar (cookies (example_browser_with text))"
    using that by (simp add: wf_jar_def example_browser_with_def cookie_name_ok_def
        cookie_value_ok_def is_blank_def)
  ultimately show ?thesis
    using getCookie_setCookie [OF _ example_wf(2) that, of "example_browser_with text" 365]
    by simp
qed


lemma text_ok:
  "cookie_value_ok ''garbage''"
  "cookie_value_ok ''{\"indices\":[2,0],\"current\":1}''"
  "cookie_value_ok ''{\"indices\":[2,0,1],\"current\":1}''"
  "cookie_value_ok ''{\"indices\":[2,0,1],\"current\":7}''"
  "cookie_value_ok ''{\"indices\":[2,0,1],\"current\":-4}''"
  by (simp_all add: cookie_value_ok_def is_blank_def)

lemma text_parse:
  "JSON_parse ''garbage'' = SyntaxError"
  "JSON_parse ''{\"indices\":[2,0],\"current\":1}'' = Value (state_json [2, 0] 1)"
  "JSON_parse ''{\"indices\":[2,0,1],\"current\":1}'' = Value (state_json [2, 0, 1] 1)"
  "JSON_parse ''{\"indices\":[2,0,1],\"current\":7}'' = Value (state_json [2, 0, 1] 7)"
  "JSON_parse ''{\"indices\":[2,0,1],\"current\":-4}'' = Value (state_json [2, 0, 1] (- 4))"
  by (simp_all add: parse_eval state_json_def)

lemma load_setCookie:
  assumes "wf_jar (cookies b)" and "cookie_name_ok (cookieName cfg)"
    and "\<forall>x \<in> set xs. safe_int x" and "safe_int c" and "length xs = totalCards sm"
  shows "load cfg sm (setCookie (cookieName cfg) (JSON_stringify (state_json xs c)) days b)
       = Loaded (sm \<lparr> shuffledIndices := xs, currentCardIndex := c \<rparr>)
           (setCookie (cookieName cfg) (JSON_stringify (state_json xs c)) days b)"
  by (rule load_snapshot [OF getCookie_setCookie [OF assms(1,2) snapshot_text_ok]
        snapshot_text_nonempty JSON_parse_state [OF assms(3,4)] assms(5)])

lemma getCurrentCardPath_out_of_range:
  "c < 0 \<or> int (length xs) \<le> c \<Longrightarrow>
   getCurrentCardPath (sm \<lparr> shuffledIndices := xs, currentCardIndex := c \<rparr>) cs = None"
  by (auto simp: getCurrentCardPath_def js_index_def)

text \<open>
  C2. From cursor 0 on a deck of \<open>N > 0\<close> cards, \<open>N\<close> successive calls of \<^verbatim>\<open>advance()\<close>
  return true \<open>N - 1\<close> times and then false. Every call that returns true has called
  \<^verbatim>\<open>save()\<close> on the state with the cursor incremented, after which the cookie holds the
  text of that snapshot (for a well-formed jar and cookie name).
\<close>

theorem advance_sequence:
  "(currentCardIndex sm = 0 \<and> length (shuffledIndices sm) = N \<and> 0 < N \<longrightarrow>
      fst (advance_times N cfg sm b) = replicate (N - 1) True @ [False])
   \<and> (fst (advance cfg sm b) \<longrightarrow>
        snd (advance cfg sm b)
          = (sm \<lparr> currentCardIndex := currentCardIndex sm + 1 \<rparr>,
             save cfg (sm \<lparr> currentCardIndex := currentCardIndex sm + 1 \<rparr>) b))
   \<and> (fst (advance cfg sm b) \<and> wf_jar (cookies b) \<and> cookie_name_ok (cookieName cfg) \<longrightarrow>
        getCookie (cookieName cfg) (snd (snd (advance cfg sm b)))
          = Some (JSON_stringify (state_json (shuffledIndices sm) (currentCardIndex sm + 1))))"
proof (intro conjI impI)
  assume "currentCardIndex sm = 0 \<and> length (shuffledIndices sm) = N \<and> 0 < N"
  then show "fst (advance_times N cfg sm b) = replicate (N - 1) True @ [False]"
    by (intro advance_times_results) simp_all
next
  assume "fst (advance cfg sm b)"
  then show "snd (advance cfg sm b)
          = (sm \<lparr> currentCardIndex := currentCardIndex sm + 1 \<rparr>,
             save cfg (sm \<lparr> currentCardIndex := currentCardIndex sm + 1 \<rparr>) b)"
    by (simp add: advance_def Let_def split: if_splits)
next
  assume a: "fst (advance cfg sm b) \<and> wf_jar (cookies b) \<and> cookie_name_ok (cookieName cfg)"
  then have "snd (snd (advance cfg sm b))
      = save cfg (sm \<lparr> currentCardIndex := currentCardIndex sm + 1 \<rparr>) b"
    by (simp add: advance_def Let_def split: if_splits)
  then show "getCookie (cookieName cfg) (snd (snd (advance cfg sm b)))
          = Some (JSON_stringify (state_json (shuffledIndices sm) (currentCardIndex sm + 1)))"
    using a getCookie_save [of b cfg "sm \<lparr> currentCardIndex := currentCardIndex sm + 1 \<rparr>"]
    by simp
qed

theorem advance_sequence_witness:
  "currentCardIndex example_manager = 0 \<and> length (shuffledIndices example_manager) = 3
   \<and> fst (advance_times 3 CONFIG example_manager example_browser) = [True, True, False]
   \<and> fst (advance CONFIG example_manager example_browser)
   \<and> wf_jar (cookies example_browser) \<and> cookie_name_ok (cookieName CONFIG)
   \<and> getCookie (cookieName CONFIG) (snd (snd (advance CONFIG example_manager example_browser)))
       = Some ''{\"indices\":[2,0,1],\"current\":1}''"
proof -
  have h: "currentCardIndex example_manager = 0" "length (shuffledIndices example_manager) = 3"
    "fst (advance CONFIG example_manager example_browser)"
    by (simp_all add: example_manager_def advance_def Let_def)
  note t = advance_sequence [where sm = example_manager and N = 3 and cfg = CONFIG
      and b = example_browser]
  from t h have "fst (advance_times 3 CONFIG example_manager example_browser) = [True, True, False]"
    by (simp add: numeral_2_eq_2)
  moreover from t h example_wf
  have "getCookie (cookieName CONFIG) (snd (snd (advance CONFIG example_manager example_browser)))
      = Some (JSON_stringify (state_json (shuffledIndices example_manager)
                (currentCardIndex example_manager + 1)))"
    by blast
  moreover have "JSON_stringify (state_json (shuffledIndices example_manager)
                (currentCardIndex example_manager + 1)) = ''{\"indices\":[2,0,1],\"current\":1}''"
    by (simp add: example_manager_def stringify_eval)
  ultimately show ?thesis using h example_wf by simp
qed

text \<open>
  C9. When \<^verbatim>\<open>advance()\<close> returns false it has incremented the cursor in memory (to at
  least the deck size) and has left the browser, and so the cookie store, as it was. If
  the store was last written by \<^verbatim>\<open>save()\<close> of the state before the call, the cookie still
  holds that snapshot, and a \<^verbatim>\<open>load()\<close> brings the state before the call back.
\<close>

theorem advance_complete_keeps_store:
  "(\<not> fst (advance cfg sm b) \<longrightarrow>
      snd (snd (advance cfg sm b)) = b
      \<and> fst (snd (advance cfg sm b)) = sm \<lparr> currentCardIndex := currentCardIndex sm + 1 \<rparr>
      \<and> int (length (shuffledIndices sm)) \<le> currentCardIndex sm + 1)
   \<and> (\<not> fst (advance cfg sm (save cfg sm b0)) \<and> wf_jar (cookies b0)
        \<and> cookie_name_ok (cookieName cfg) \<longrightarrow>
      getCookie (cookieName cfg) (snd (snd (advance cfg sm (save cfg sm b0))))
        = Some (JSON_stringify (state_json (shuffledIndices sm) (currentCardIndex sm))))
   \<and> (\<not> fst (advance cfg sm (save cfg sm b0)) \<and> wf_jar (cookies b0)
        \<and> cookie_name_ok (cookieName cfg)
        \<and> (\<forall>x \<in> set (shuffledIndices sm). safe_int x) \<and> safe_int (currentCardIndex sm)
        \<and> length (shuffledIndices sm) = totalCards sm \<longrightarrow>
      load cfg (fst (snd (advance cfg sm (save cfg sm b0))))
               (snd (snd (advance cfg sm (save cfg sm b0))))
        = Loaded sm (save cfg sm b0))"
proof -
  have frame: "\<not> fst (advance cfg sm b) \<longrightarrow>
      snd (snd (advance cfg sm b)) = b
      \<and> fst (snd (advance cfg sm b)) = sm \<lparr> currentCardIndex := currentCardIndex sm + 1 \<rparr>
      \<and> int (length (shuffledIndices sm)) \<le> currentCardIndex sm + 1" for b
    by (simp add: advance_def Let_def)
  have cookie: "\<not> fst (advance cfg sm (save cfg sm b0)) \<and> wf_jar (cookies b0)
        \<and> cookie_name_ok (cookieName cfg) \<longrightarrow>
      getCookie (cookieName cfg) (snd (snd (advance cfg sm (save cfg sm b0))))
        = Some (JSON_stringify (state_json (shuffledIndices sm) (currentCardIndex sm)))"
    using frame [of "save cfg sm b0"] getCookie_save [of b0 cfg sm] by simp
  have reload: "\<not> fst (advance cfg sm (save cfg sm b0)) \<and> wf_jar (cookies b0)
        \<and> cookie_name_ok (cookieName cfg)
        \<and> (\<forall>x \<in> set (shuffledIndices sm). safe_int x) \<and> safe_int (currentCardIndex sm)
        \<and> length (shuffledIndices sm) = totalCards sm \<longrightarrow>
      load cfg (fst (snd (advance cfg sm (save cfg sm b0))))
               (snd (snd (advance cfg sm (save cfg sm b0))))
        = Loaded sm (save cfg sm b0)"
  proof
    assume a: "\<not> fst (advance cfg sm (save cfg sm b0)) \<and> wf_jar (cookies b0)
        \<and> cookie_name_ok (cookieName cfg)
        \<and> (\<forall>x \<in> set (shuffledIndices sm). safe_int x) \<and> safe_int (currentCardIndex sm)
        \<and> length (shuffledIndices sm) = totalCards sm"
    let ?sm' = "sm \<lparr> currentCardIndex := currentCardIndex sm + 1 \<rparr>"
    from a frame [of "save cfg sm b0"]
    have e: "fst (snd (advance cfg sm (save cfg sm b0))) = ?sm'"
      "snd (snd (advance cfg sm (save cfg sm b0))) = save cfg sm b0" by simp_all
    have "load cfg ?sm' (save cfg sm b0)
        = Loaded (?sm' \<lparr> shuffledIndices := shuffledIndices sm,
                          currentCardIndex := currentCardIndex sm \<rparr>) (save cfg sm b0)"
      using a by (intro load_save) simp_all
    then show "load cfg (fst (snd (advance cfg sm (save cfg sm b0))))
               (snd (snd (advance cfg sm (save cfg sm b0))))
        = Loaded sm (save cfg sm b0)"
      by (simp add: e)
  qed
  from frame [of b] cookie reload show ?thesis by (intro conjI)
qed

lemma example_last_safe:
  "\<forall>x \<in> set (shuffledIndices (example_manager \<lparr> currentCardIndex := 2 \<rparr>)). safe_int x"
  "safe_int (currentCardIndex (example_manager \<lparr> currentCardIndex := 2 \<rparr>))"
  "length (shuffledIndices (example_manager \<lparr> currentCardIndex := 2 \<rparr>))
     = totalCards (example_manager \<lparr> currentCardIndex := 2 \<rparr>)"
  by (simp_all add: example_manager_def safe_int_def)

theorem advance_complete_keeps_store_witness:
  "\<not> fst (advance CONFIG (example_manager \<lparr> currentCardIndex := 2 \<rparr>)
           (save CONFIG (example_manager \<lparr> currentCardIndex := 2 \<rparr>) example_browser))
   \<and> wf_jar (cookies example_browser) \<and> cookie_name_ok (cookieName CONFIG)
   \<and> snd (advance CONFIG (example_manager \<lparr> currentCardIndex := 2 \<rparr>)
           (save CONFIG (example_manager \<lparr> currentCardIndex := 2 \<rparr>) example_browser))
       = (example_manager \<lparr> currentCardIndex := 3 \<rparr>,
          save CONFIG (example_manager \<lparr> currentCardIndex := 2 \<rparr>) example_browser)
   \<and> getCookie (cookieName CONFIG)
        (snd (snd (advance CONFIG (example_manager \<lparr> currentCardIndex := 2 \<rparr>)
           (save CONFIG (example_manager \<lparr> currentCardIndex := 2 \<rparr>) example_browser))))
       = Some ''{\"indices\":[2,0,1],\"current\":2}''
   \<and> load CONFIG (example_manager \<lparr> currentCardIndex := 3 \<rparr>)
        (snd (snd (advance CONFIG (example_manager \<lparr> currentCardIndex := 2 \<rparr>)
           (save CONFIG (example_manager \<lparr> currentCardIndex := 2 \<rparr>) example_browser))))
       = Loaded (example_manager \<lparr> currentCardIndex := 2 \<rparr>)
           (save CONFIG (example_manager \<lparr> currentCardIndex := 2 \<rparr>) example_browser)"
proof -
  let ?sm = "example_manager \<lparr> currentCardIndex := 2 \<rparr>"
  let ?b = "save CONFIG ?sm example_browser"
  have h: "\<not> fst (advance CONFIG ?sm ?b)"
    by (simp add: advance_def Let_def example_manager_def)
  note t = advance_complete_keeps_store [where cfg = CONFIG and sm = ?sm and b = ?b
      and b0 = example_browser]
  from t h have 1: "snd (advance CONFIG ?sm ?b) = (example_manager \<lparr> currentCardIndex := 3 \<rparr>, ?b)"
    by (simp add: prod_eq_iff)
  from t h example_wf have 2: "getCookie (cookieName CONFIG) (snd (snd (advance CONFIG ?sm ?b)))
      = Some (JSON_stringify (state_json (shuffledIndices ?sm) (currentCardIndex ?sm)))"
    by blast
  have 3: "JSON_stringify (state_json (shuffledIndices ?sm) (currentCardIndex ?sm))
      = ''{\"indices\":[2,0,1],\"current\":2}''"
    by (simp add: example_manager_def stringify_eval)
  from t h example_wf example_last_safe
  have 4: "load CONFIG (fst (snd (advance CONFIG ?sm ?b))) (snd (snd (advance CONFIG ?sm ?b)))
      = Loaded ?sm ?b"
    by blast
  from h example_wf 1 2 3 4 show ?thesis by simp
qed

text \<open>
  C4. Round trip: for every state whose indices and cursor are integers a JavaScript
  number holds exactly, \<^verbatim>\<open>save()\<close> followed by \<^verbatim>\<open>load()\<close> on a manager for a deck of as many
  cards as the saved permutation has entries, with no write to the cookie store in
  between, gives the saved permutation and cursor back. The jar is well formed, has no
  size limit, and the cookie name is a valid name.
\<close>

theorem save_load_round_trip:
  "wf_jar (cookies b) \<and> cookie_name_ok (cookieName cfg)
   \<and> (\<forall>x \<in> set (shuffledIndices sm). safe_int x) \<and> safe_int (currentCardIndex sm)
   \<and> length (shuffledIndices sm) = totalCards sm0 \<longrightarrow>
   load cfg sm0 (save cfg sm b)
     = Loaded (sm0 \<lparr> shuffledIndices := shuffledIndices sm,
                     currentCardIndex := currentCardIndex sm \<rparr>) (save cfg sm b)"
  using load_save by blast

theorem save_load_round_trip_witness:
  "wf_jar (cookies example_browser) \<and> cookie_name_ok (cookieName CONFIG)
   \<and> length (shuffledIndices example_manager) = totalCards (StateManager_new 3)
   \<and> cookies (save CONFIG (example_manager \<lparr> currentCardIndex := 1 \<rparr>) example_browser)
       = [(''theme'', ''dark''), (''cardStudyProgress'', ''{\"indices\":[2,0,1],\"current\":1}'')]
   \<and> load CONFIG (StateManager_new 3)
         (save CONFIG (example_manager \<lparr> currentCardIndex := 1 \<rparr>) example_browser)
       = Loaded \<lparr> totalCards = 3, shuffledIndices = [2, 0, 1], currentCardIndex = 1 \<rparr>
           (save CONFIG (example_manager \<lparr> currentCardIndex := 1 \<rparr>) example_browser)"
proof -
  let ?sm = "example_manager \<lparr> currentCardIndex := 1 \<rparr>"
  have s: "\<forall>x \<in> set (shuffledIndices ?sm). safe_int x" "safe_int (currentCardIndex ?sm)"
    "length (shuffledIndices ?sm) = totalCards (StateManager_new 3)"
    by (simp_all add: example_manager_def safe_int_def StateManager_new_def)
  from save_load_round_trip [where b = example_browser and cfg = CONFIG and sm = ?sm
      and ?sm0.0 = "StateManager_new 3"] example_wf s
  have "load CONFIG (StateManager_new 3) (save CONFIG ?sm example_browser)
      = Loaded (StateManager_new 3 \<lparr> shuffledIndices := shuffledIndices ?sm,
                  currentCardIndex := currentCardIndex ?sm \<rparr>) (save CONFIG ?sm example_browser)"
    by blast
  moreover have "cookies (save CONFIG ?sm example_browser)
       = [(''theme'', ''dark''), (''cardStudyProgress'', ''{\"indices\":[2,0,1],\"current\":1}'')]"
    by (simp add: save_def setCookie_def example_browser_def example_manager_def CONFIG_def
        document_cookie_set_def trim_def is_blank_def stringify_eval Let_def)
  ultimately show ?thesis
    using example_wf s by (simp add: example_manager_def StateManager_new_def)
qed

text \<open>
  C3. \<^verbatim>\<open>load()\<close> falls back to \<^verbatim>\<open>reset()\<close> when the cookie is absent or empty, when its text
  is not JSON, and when the parsed snapshot's \<^verbatim>\<open>indices\<close> is an array whose length
  differs from \<^verbatim>\<open>totalCards\<close>; \<^verbatim>\<open>reset()\<close> gives a permutation of \<open>[0, N)\<close> and cursor 0.
  When the array has length \<^verbatim>\<open>totalCards\<close>, \<^verbatim>\<open>load()\<close> adopts the snapshot's array and
  cursor as they are: as the typed state when they are integers, as \<open>Adopted_untyped\<close>
  otherwise.
\<close>

theorem load_validates_length:
  "(getCookie (cookieName cfg) b = None \<or> getCookie (cookieName cfg) b = Some [] \<longrightarrow>
      load cfg sm b = (case reset cfg sm b of (sm', b') \<Rightarrow> Loaded sm' b'))
   \<and> (getCookie (cookieName cfg) b = Some saved \<and> JSON_parse saved = SyntaxError \<longrightarrow>
      load cfg sm b = (case reset cfg sm b of (sm', b') \<Rightarrow> Loaded sm' b'))
   \<and> (getCookie (cookieName cfg) b = Some saved \<and> saved \<noteq> []
        \<and> JSON_parse saved = Value st \<and> own_property st ''indices'' = Some (JArr vs)
        \<and> length vs \<noteq> totalCards sm \<longrightarrow>
      load cfg sm b = (case reset cfg sm b of (sm', b') \<Rightarrow> Loaded sm' b'))
   \<and> (getCookie (cookieName cfg) b = Some saved \<and> saved \<noteq> []
        \<and> JSON_parse saved = Value st \<and> own_property st ''indices'' = Some (JArr vs)
        \<and> length vs = totalCards sm \<longrightarrow>
      load cfg sm b =
        (case (those (map as_int vs), own_property st ''current'') of
           (Some xs, Some (JNum c)) \<Rightarrow>
             Loaded (sm \<lparr> shuffledIndices := xs, currentCardIndex := c \<rparr>) b
         | _ \<Rightarrow> Adopted_untyped (JArr vs) (own_property st ''current'')))
   \<and> (getCookie (cookieName cfg) b = Some saved \<and> saved \<noteq> []
        \<and> JSON_parse saved = Value (state_json ys k) \<and> length ys = totalCards sm \<longrightarrow>
      load cfg sm b = Loaded (sm \<lparr> shuffledIndices := ys, currentCardIndex := k \<rparr>) b)
   \<and> (case reset cfg sm b of
        (sm', b') \<Rightarrow> mset (shuffledIndices sm') = mset (map int [0 ..< totalCards sm])
                      \<and> currentCardIndex sm' = 0)"
proof -
  have absent: "getCookie (cookieName cfg) b = None \<or> getCookie (cookieName cfg) b = Some [] \<longrightarrow>
      load cfg sm b = (case reset cfg sm b of (sm', b') \<Rightarrow> Loaded sm' b')"
    using load_fallbacks1 by blast
  have unparsable: "getCookie (cookieName cfg) b = Some saved \<and> JSON_parse saved = SyntaxError \<longrightarrow>
      load cfg sm b = (case reset cfg sm b of (sm', b') \<Rightarrow> Loaded sm' b')"
    using load_fallbacks2 by blast
  show ?thesis
    by (intro conjI) (rule absent, rule unparsable, rule load_mismatch, rule load_match,
      rule load_typed, rule reset_fresh)
qed

theorem load_validates_length_witness:
  "getCookie (cookieName CONFIG) example_browser = None
   \<and> load CONFIG (StateManager_new 3) example_browser
       = Loaded \<lparr> totalCards = 3, shuffledIndices = [1, 2, 0], currentCardIndex = 0 \<rparr>
           (save CONFIG \<lparr> totalCards = 3, shuffledIndices = [1, 2, 0], currentCardIndex = 0 \<rparr>
              example_browser)
   \<and> getCookie (cookieName CONFIG) (example_browser_with ''garbage'') = Some ''garbage''
   \<and> JSON_parse ''garbage'' = SyntaxError
   \<and> load CONFIG (StateManager_new 3) (example_browser_with ''garbage'')
       = Loaded \<lparr> totalCards = 3, shuffledIndices = [1, 2, 0], currentCardIndex = 0 \<rparr>
           (save CONFIG \<lparr> totalCards = 3, shuffledIndices = [1, 2, 0], currentCardIndex = 0 \<rparr>
              (example_browser_with ''garbage''))
   \<and> JSON_parse ''{\"indices\":[2,0],\"current\":1}'' = Value (state_json [2, 0] 1)
   \<and> load CONFIG (StateManager_new 3) (example_browser_with ''{\"indices\":[2,0],\"current\":1}'')
       = Loaded \<lparr> totalCards = 3, shuffledIndices = [1, 2, 0], currentCardIndex = 0 \<rparr>
           (save CONFIG \<lparr> totalCards = 3, shuffledIndices = [1, 2, 0], currentCardIndex = 0 \<rparr>
              (example_browser_with ''{\"indices\":[2,0],\"current\":1}''))
   \<and> JSON_parse ''{\"indices\":[2,0,1],\"current\":1}'' = Value (state_json [2, 0, 1] 1)
   \<and> load CONFIG (StateManager_new 3) (example_browser_with ''{\"indices\":[2,0,1],\"current\":1}'')
       = Loaded \<lparr> totalCards = 3, shuffledIndices = [2, 0, 1], currentCardIndex = 1 \<rparr>
           (example_browser_with ''{\"indices\":[2,0,1],\"current\":1}'')"
proof -
  let ?sm = "StateManager_new 3"
  have none: "getCookie (cookieName CONFIG) example_browser = None"
    by (simp add: getCookie_def document_cookie_get_def Let_def example_browser_def CONFIG_def)
  note g = getCookie_example_with [OF text_ok(1)] getCookie_example_with [OF text_ok(2)]
    getCookie_example_with [OF text_ok(3)]
  have own: "own_property (state_json [2, 0] 1) ''indices'' = Some (JArr [JNum 2, JNum 0])"
    by (simp add: own_property_def state_json_def)
  have n: "totalCards ?sm = 3" by (simp add: StateManager_new_def)
  have 1: "load CONFIG ?sm example_browser
      = (case reset CONFIG ?sm example_browser of (sm', b') \<Rightarrow> Loaded sm' b')"
    using load_validates_length [where cfg = CONFIG and b = example_browser and sm = ?sm] none
    by blast
  have 2: "load CONFIG ?sm (example_browser_with ''garbage'')
      = (case reset CONFIG ?sm (example_browser_with ''garbage'') of (sm', b') \<Rightarrow> Loaded sm' b')"
    using load_validates_length [where cfg = CONFIG and b = "example_browser_with ''garbage''"
        and sm = ?sm and saved = "''garbage''"] g(1) text_parse(1)
    by blast
  have 3: "load CONFIG ?sm (example_browser_with ''{\"indices\":[2,0],\"current\":1}'')
      = (case reset CONFIG ?sm (example_browser_with ''{\"indices\":[2,0],\"current\":1}'') of
           (sm', b') \<Rightarrow> Loaded sm' b')"
    using load_validates_length [where cfg = CONFIG
        and b = "example_browser_with ''{\"indices\":[2,0],\"current\":1}''"
        and sm = ?sm and saved = "''{\"indices\":[2,0],\"current\":1}''"
        and st = "state_json [2, 0] 1" and vs = "[JNum 2, JNum 0]"]
      g(2) text_parse(2) own n
    by simp
  have 4: "load CONFIG ?sm (example_browser_with ''{\"indices\":[2,0,1],\"current\":1}'')
      = Loaded (?sm \<lparr> shuffledIndices := [2, 0, 1], currentCardIndex := 1 \<rparr>)
          (example_browser_with ''{\"indices\":[2,0,1],\"current\":1}'')"
    using load_validates_length [where cfg = CONFIG
        and b = "example_browser_with ''{\"indices\":[2,0,1],\"current\":1}''"
        and sm = ?sm and saved = "''{\"indices\":[2,0,1],\"current\":1}''"
        and ys = "[2, 0, 1]" and k = 1]
      g(3) text_parse(3) n
    by simp
  show ?thesis
    unfolding 1 2 3 4
    by (simp add: none g text_parse reset_example example_random) (simp add: StateManager_new_def)
qed

text \<open>
  C10. \<^verbatim>\<open>load()\<close> checks the length of the permutation only: a snapshot with an indices
  array of length \<open>N\<close> is accepted with any cursor \<open>c\<close>, negative or beyond \<open>N\<close>, both as a
  parsed cookie text and as the text \<^verbatim>\<open>setCookie\<close> stores for it. So \<^verbatim>\<open>load()\<close> alone does
  not bring the cursor into \<open>[0, N]\<close>, and \<^verbatim>\<open>getCurrentCardPath\<close> on the loaded state reads
  out of bounds (\<^verbatim>\<open>undefined\<close>) when \<open>c < 0\<close> or \<open>c \<ge> N\<close>.
\<close>

theorem load_accepts_any_cursor:
  "(getCookie (cookieName cfg) b = Some saved \<and> saved \<noteq> []
      \<and> JSON_parse saved = Value (state_json xs c) \<and> length xs = totalCards sm \<longrightarrow>
      load cfg sm b = Loaded (sm \<lparr> shuffledIndices := xs, currentCardIndex := c \<rparr>) b)
   \<and> (wf_jar (cookies b) \<and> cookie_name_ok (cookieName cfg)
      \<and> (\<forall>x \<in> set xs. safe_int x) \<and> safe_int c \<and> length xs = totalCards sm \<longrightarrow>
      load cfg sm (setCookie (cookieName cfg) (JSON_stringify (state_json xs c)) days b)
        = Loaded (sm \<lparr> shuffledIndices := xs, currentCardIndex := c \<rparr>)
            (setCookie (cookieName cfg) (JSON_stringify (state_json xs c)) days b))
   \<and> (c < 0 \<or> int (length xs) \<le> c \<longrightarrow>
      getCurrentCardPath (sm \<lparr> shuffledIndices := xs, currentCardIndex := c \<rparr>) cs = None)"
proof -
  have stored: "wf_jar (cookies b) \<and> cookie_name_ok (cookieName cfg)
      \<and> (\<forall>x \<in> set xs. safe_int x) \<and> safe_int c \<and> length xs = totalCards sm \<longrightarrow>
      load cfg sm (setCookie (cookieName cfg) (JSON_stringify (state_json xs c)) days b)
        = Loaded (sm \<lparr> shuffledIndices := xs, currentCardIndex := c \<rparr>)
            (setCookie (cookieName cfg) (JSON_stringify (state_json xs c)) days b)"
    using load_setCookie by blast
  have undefined_path: "c < 0 \<or> int (length xs) \<le> c \<longrightarrow>
      getCurrentCardPath (sm \<lparr> shuffledIndices := xs, currentCardIndex := c \<rparr>) cs = None"
    using getCurrentCardPath_out_of_range by blast
  show ?thesis
    by (intro conjI) (rule load_typed, rule stored, rule undefined_path)
qed

theorem load_accepts_any_cursor_witness:
  "getCookie (cookieName CONFIG) (example_browser_with ''{\"indices\":[2,0,1],\"current\":7}'')
     = Some ''{\"indices\":[2,0,1],\"current\":7}''
   \<and> JSON_parse ''{\"indices\":[2,0,1],\"current\":7}'' = Value (state_json [2, 0, 1] 7)
   \<and> load CONFIG (StateManager_new 3) (example_browser_with ''{\"indices\":[2,0,1],\"current\":7}'')
       = Loaded \<lparr> totalCards = 3, shuffledIndices = [2, 0, 1], currentCardIndex = 7 \<rparr>
           (example_browser_with ''{\"indices\":[2,0,1],\"current\":7}'')
   \<and> getCurrentCardPath \<lparr> totalCards = 3, shuffledIndices = [2, 0, 1], currentCardIndex = 7 \<rparr>
        [''a.webp'', ''b.webp'', ''c.webp''] = None
   \<and> load CONFIG (StateManager_new 3) (example_browser_with ''{\"indices\":[2,0,1],\"current\":-4}'')
       = Loaded \<lparr> totalCards = 3, shuffledIndices = [2, 0, 1], currentCardIndex = - 4 \<rparr>
           (example_browser_with ''{\"indices\":[2,0,1],\"current\":-4}'')
   \<and> getCurrentCardPath \<lparr> totalCards = 3, shuffledIndices = [2, 0, 1], currentCardIndex = - 4 \<rparr>
        [''a.webp'', ''b.webp'', ''c.webp''] = None
   \<and> wf_jar (cookies example_browser) \<and> cookie_name_ok (cookieName CONFIG)
   \<and> safe_int 7
   \<and> cookies (setCookie (cookieName CONFIG) (JSON_stringify (state_json [2, 0, 1] 7)) 365
        example_browser)
       = [(''theme'', ''dark''), (''cardStudyProgress'', ''{\"indices\":[2,0,1],\"current\":7}'')]
   \<and> load CONFIG (StateManager_new 3)
        (setCookie (cookieName CONFIG) (JSON_stringify (state_json [2, 0, 1] 7)) 365 example_browser)
       = Loaded \<lparr> totalCards = 3, shuffledIndices = [2, 0, 1], currentCardIndex = 7 \<rparr>
           (setCookie (cookieName CONFIG) (JSON_stringify (state_json [2, 0, 1] 7)) 365
              example_browser)"
proof -
  let ?sm = "StateManager_new 3"
  let ?cs = "[''a.webp'', ''b.webp'', ''c.webp'']"
  note g = getCookie_example_with [OF text_ok(4)] getCookie_example_with [OF text_ok(5)]
  have n: "length [2, 0, 1 :: int] = totalCards ?sm" by (simp add: StateManager_new_def)
  have s: "\<forall>x \<in> set [2, 0, 1 :: int]. safe_int x" "safe_int 7"
    by (simp_all add: safe_int_def)
  note t7 = load_accepts_any_cursor [where cfg = CONFIG and sm = ?sm and xs = "[2, 0, 1]"
      and c = 7 and saved = "''{\"indices\":[2,0,1],\"current\":7}''"
      and b = "example_browser_with ''{\"indices\":[2,0,1],\"current\":7}''" and cs = ?cs]
  note t4 = load_accepts_any_cursor [where cfg = CONFIG and sm = ?sm and xs = "[2, 0, 1]"
      and c = "- 4" and saved = "''{\"indices\":[2,0,1],\"current\":-4}''"
      and b = "example_browser_with ''{\"indices\":[2,0,1],\"current\":-4}''" and cs = ?cs]
  note ts = load_accepts_any_cursor [where cfg = CONFIG and sm = ?sm and xs = "[2, 0, 1]"
      and c = 7 and b = example_browser and days = 365]
  have 1: "load CONFIG ?sm (example_browser_with ''{\"indices\":[2,0,1],\"current\":7}'')
      = Loaded (?sm \<lparr> shuffledIndices := [2, 0, 1], currentCardIndex := 7 \<rparr>)
          (example_browser_with ''{\"indices\":[2,0,1],\"current\":7}'')"
    using t7 g(1) text_parse(4) n by simp
  have 2: "getCurrentCardPath (?sm \<lparr> shuffledIndices := [2, 0, 1], currentCardIndex := 7 \<rparr>) ?cs
      = None"
    using t7 by simp
  have 3: "load CONFIG ?sm (example_browser_with ''{\"indices\":[2,0,1],\"current\":-4}'')
      = Loaded (?sm \<lparr> shuffledIndices := [2, 0, 1], currentCardIndex := - 4 \<rparr>)
          (example_browser_with ''{\"indices\":[2,0,1],\"current\":-4}'')"
    using t4 g(2) text_parse(5) n by simp
  have 4: "getCurrentCardPath (?sm \<lparr> shuffledIndices := [2, 0, 1], currentCardIndex := - 4 \<rparr>) ?cs
      = None"
    using t4 by simp
  have 5: "load CONFIG ?sm
        (setCookie (cookieName CONFIG) (JSON_stringify (state_json [2, 0, 1] 7)) 365 example_browser)
      = Loaded (?sm \<lparr> shuffledIndices := [2, 0, 1], currentCardIndex := 7 \<rparr>)
          (setCookie (cookieName CONFIG) (JSON_stringify (state_json [2, 0, 1] 7)) 365
             example_browser)"
    using ts example_wf s n by blast
  have 6: "cookies (setCookie (cookieName CONFIG) (JSON_stringify (state_json [2, 0, 1] 7)) 365
        example_browser)
       = [(''theme'', ''dark''), (''cardStudyProgress'', ''{\"indices\":[2,0,1],\"current\":7}'')]"
    by (simp add: setCookie_def example_browser_def CONFIG_def document_cookie_set_def trim_def
        is_blank_def stringify_eval Let_def)
  have e: "?sm \<lparr> shuffledIndices := [2, 0, 1], currentCardIndex := 7 \<rparr>
        = \<lparr> totalCards = 3, shuffledIndices = [2, 0, 1], currentCardIndex = 7 \<rparr>"
    "?sm \<lparr> shuffledIndices := [2, 0, 1], currentCardIndex := - 4 \<rparr>
        = \<lparr> totalCards = 3, shuffledIndices = [2, 0, 1], currentCardIndex = - 4 \<rparr>"
    by (simp_all add: StateManager_new_def)
  from 1 2 3 4 5 6 g text_parse(4) example_wf s(2) show ?thesis
    unfolding e by (intro conjI)
qed

end
